theory Spec2Isabelle
  imports Main "HOL-Library.AList"
begin

section \<open>Claude Code to Notion sync: a model of sync-to-notion.js\<close>

text \<open>
  The script mirrors the feature files under \<open>roadmap/\<close> into two Notion databases. The
  model follows the script function by function. JavaScript strings are modelled as
  \<open>string\<close> (code units below 256), JavaScript objects used as dictionaries as association
  lists in \<open>Object.entries\<close> order, exceptions as the left injection of a sum, and the
  Notion client as a record of operations on an abstract remote state.
\<close>

subsection \<open>Configuration\<close>

text \<open>\<open>CONFIG.statusFolders\<close>: folder name to status, in the order the object literal lists them.\<close>

definition statusFolders :: "(string \<times> string) list" where
  "statusFolders =
     [(''backlog'', ''Backlog''),
      (''planned'', ''Planned''),
      (''in-progress'', ''In Progress''),
      (''completed'', ''Completed'')]"

text \<open>\<open>CONFIG.statusOrder\<close>.\<close>

definition statusOrder :: "string list" where
  "statusOrder = [''In Progress'', ''Planned'', ''Backlog'', ''Completed'']"

text \<open>\<open>CONFIG.roadmapDir\<close>: the directory \<open>scanRoadmapFeatures\<close> walks; every path it returns begins with it.\<close>

definition roadmapDir :: string where
  "roadmapDir = ''roadmap''"

subsection \<open>Status of a feature file (parseFeatureFile, lines 120-130)\<close>

text \<open>
  \<open>str.split(sep)\<close> for a separator of one character: the pieces between the separators,
  empty pieces included; the empty string gives one empty piece.
\<close>

fun split_sep :: "char \<Rightarrow> string \<Rightarrow> string list" where
  "split_sep sep [] = [[]]"
| "split_sep sep (c # cs) =
     (if c = sep then [] # split_sep sep cs
      else (case split_sep sep cs of
              [] \<Rightarrow> [[c]]
            | p # ps \<Rightarrow> (c # p) # ps))"

text \<open>
  The loop \<open>for (const folder of Object.keys(CONFIG.statusFolders))\<close> with its \<open>break\<close>:
  the first folder of the table, in table order, that is one of the path's parts.
\<close>

fun statusLoop :: "string list \<Rightarrow> (string \<times> string) list \<Rightarrow> string option" where
  "statusLoop pathParts [] = None"
| "statusLoop pathParts ((folder, status) # rest) =
     (if folder \<in> set pathParts then Some status else statusLoop pathParts rest)"

text \<open>
  \<open>feature.status\<close> after lines 120-130: \<open>sep\<close> is \<open>path.sep\<close>; \<open>!feature.status\<close> holds for
  \<open>null\<close> and for the empty string.
\<close>

definition statusFromPath :: "char \<Rightarrow> string \<Rightarrow> string" where
  "statusFromPath sep filePath =
     (case statusLoop (split_sep sep filePath) statusFolders of
        None \<Rightarrow> ''Backlog''
      | Some s \<Rightarrow> if s = [] then ''Backlog'' else s)"

subsection \<open>Features, the sync mapping, and the Notion client\<close>

text \<open>One parsed subtask: \<open>{ text, completed, phase }\<close> (the field \<open>text\<close> is \<open>taskText\<close> here); \<open>phase\<close> is \<open>null\<close> before the first heading.\<close>

record subtask =
  taskText :: string
  completed :: bool
  phase :: "string option"

text \<open>The object \<open>parseFeatureFile\<close> returns; a field that can be \<open>null\<close> is an option.\<close>

record feature =
  title :: "string option"
  priority :: "string option"
  complexity :: "string option"
  estimatedSessions :: "string option"
  description :: "string option"
  subtasks :: "subtask list"
  status :: string
  filePath :: string
  hash :: string

text \<open>
  The content of \<open>.notion-sync.json\<close> in memory. The two tables are JavaScript objects keyed
  by file path: association lists in \<open>Object.entries\<close> order, with \<open>map_of\<close> for \<open>obj[k]\<close>,
  \<open>AList.update\<close> for \<open>obj[k] = v\<close> and \<open>AList.delete\<close> for \<open>delete obj[k]\<close>.
\<close>

record mapping =
  projectPageId :: "string option"
  lastSync :: "string option"
  featurePageIds :: "(string \<times> string) list"
  contentHashes :: "(string \<times> string) list"

text \<open>JavaScript truthiness of a value that is a string, \<open>null\<close> or \<open>undefined\<close>.\<close>

fun truthy :: "string option \<Rightarrow> bool" where
  "truthy None = False"
| "truthy (Some s) = (s \<noteq> [])"

text \<open>
  The \<open>properties\<close> object sent to Notion. For the project page it holds \<open>Name\<close> only. For
  a feature page it holds \<open>Name\<close> (the title), \<open>Status\<close>, \<open>Project\<close> (the id of the related
  project page), and \<open>Priority\<close> and \<open>Complexity\<close>, each \<open>None\<close> when the object has no such
  key.
\<close>

datatype properties =
    ProjectProperties string
  | FeatureProperties "string option" string "string option" "string option" "string option"

text \<open>
  The blocks the script builds. A constructor stands for one block literal of the script;
  the fixed texts and emoji of a literal are not repeated in the constructor's arguments.
\<close>

datatype block =
    Paragraph string
  | Divider
  | SubtasksHeading
  | Heading3 string
  | ToDo string bool
  | SourceRef string
  | ReadmeCallout string
  | KanbanInstructions string

text \<open>The payload of \<open>notion.pages.update\<close>: new properties, or \<open>archived: true\<close>.\<close>

datatype update = SetProperties properties | SetArchived

text \<open>The two filters of \<open>notion.databases.query\<close> the script builds.\<close>

datatype query = NameEquals string | NameEqualsAndProjectContains "string option" "string option"

text \<open>Every request the script can send, with its arguments.\<close>

datatype call =
    PagesRetrieve string
  | PagesUpdate string update
  | BlocksChildrenList string
  | BlocksDelete string
  | BlocksChildrenAppend string "block list"
  | PagesCreate string properties "block list"
  | DatabasesQuery string query

text \<open>An exception, with its message.\<close>

datatype error = Error string

text \<open>
  The Notion client is not part of the script. It is a parameter: for each method, a
  function from the remote state to the outcome (\<open>Inl\<close>: the promise rejects) and the new
  remote state. Nothing else is assumed of it.
\<close>

record 'r notion =
  pages_retrieve :: "string \<Rightarrow> 'r \<Rightarrow> (error + unit) \<times> 'r"
  pages_update :: "string \<Rightarrow> update \<Rightarrow> 'r \<Rightarrow> (error + unit) \<times> 'r"
  blocks_children_list :: "string \<Rightarrow> 'r \<Rightarrow> (error + string list) \<times> 'r"
  blocks_delete :: "string \<Rightarrow> 'r \<Rightarrow> (error + unit) \<times> 'r"
  blocks_children_append :: "string \<Rightarrow> block list \<Rightarrow> 'r \<Rightarrow> (error + unit) \<times> 'r"
  pages_create :: "string \<Rightarrow> properties \<Rightarrow> block list \<Rightarrow> 'r \<Rightarrow> (error + string) \<times> 'r"
  databases_query :: "string \<Rightarrow> query \<Rightarrow> 'r \<Rightarrow> (error + string list) \<times> 'r"

text \<open>The world outside the process: the remote state and the requests sent so far.\<close>

type_synonym 'r world = "'r \<times> call list"

text \<open>Sending one request: the client answers, the request is recorded.\<close>

definition request :: "('r \<Rightarrow> 'a \<times> 'r) \<Rightarrow> call \<Rightarrow> 'r world \<Rightarrow> 'a \<times> 'r world" where
  "request method c w =
     (case method (fst w) of (res, r') \<Rightarrow> (res, (r', snd w @ [c])))"

text \<open>The two database ids of \<open>CONFIG\<close>, read from the environment.\<close>

record config =
  projectsDbId :: string
  featuresDbId :: string

subsection \<open>Regular expressions\<close>

text \<open>
  \<open>parseSubtasks\<close> tests each line against three regular expressions. They are modelled
  by a backtracking matcher over the items a pattern is a sequence of: a character of a
  class, a greedy repetition of a class, an optional group, the two ends of a capture
  group, a negative lookahead, the end of the input.
\<close>

datatype re =
    Chr "char \<Rightarrow> bool"
  | Star "char \<Rightarrow> bool"
  | Opt "re list"
  | Open nat
  | Close nat
  | NotAhead "re list"
  | End

text \<open>The text captured by each group, by group number.\<close>

type_synonym groups = "nat \<Rightarrow> string option"

text \<open>
  \<open>mt items s starts groups\<close>: the items match a prefix of \<open>s\<close>, or all of it when they end
  with \<open>End\<close>. Alternatives are tried in the order of the JavaScript matcher: a repetition
  takes as many characters as it can and gives them back one by one; an optional group is
  tried before it is skipped. \<open>starts\<close> remembers what was left of the input when a group
  was opened. The result is the captures of the first way that matches.
\<close>

function mt :: "re list \<Rightarrow> string \<Rightarrow> groups \<Rightarrow> groups \<Rightarrow> groups option" where
  "mt [] s st cp = Some cp"
| "mt (Chr p # rs) [] st cp = None"
| "mt (Chr p # rs) (c # cs) st cp = (if p c then mt rs cs st cp else None)"
| "mt (Star p # rs) [] st cp = mt rs [] st cp"
| "mt (Star p # rs) (c # cs) st cp =
     (if p c
      then (case mt (Star p # rs) cs st cp of
              Some r \<Rightarrow> Some r
            | None \<Rightarrow> mt rs (c # cs) st cp)
      else mt rs (c # cs) st cp)"
| "mt (Opt inner # rs) s st cp =
     (case mt (inner @ rs) s st cp of
        Some r \<Rightarrow> Some r
      | None \<Rightarrow> mt rs s st cp)"
| "mt (Open i # rs) s st cp = mt rs s (st(i \<mapsto> s)) cp"
| "mt (Close i # rs) s st cp =
     mt rs s st (cp(i \<mapsto> (case st i of None \<Rightarrow> [] | Some s0 \<Rightarrow> take (length s0 - length s) s0)))"
| "mt (NotAhead inner # rs) s st cp =
     (case mt inner s st cp of
        Some r \<Rightarrow> None
      | None \<Rightarrow> mt rs s st cp)"
| "mt (End # rs) s st cp = (if s = [] then mt rs s st cp else None)"
  by pat_completeness auto
termination
  by (relation "inv_image (less_than <*lex*> less_than)
                   (\<lambda>(rs, s, st, cp). (size_list size rs, length s))")
     auto

text \<open>
  \<open>line.match(re)\<close> for a pattern that begins with the anchor of the start of input and
  has no flag \<open>m\<close>: such a pattern can only match from the first character on.
\<close>

definition matchStart :: "re list \<Rightarrow> string \<Rightarrow> groups option" where
  "matchStart rs s = mt rs s Map.empty Map.empty"

text \<open>\<open>match[i]\<close> of a successful match.\<close>

definition group :: "groups \<Rightarrow> nat \<Rightarrow> string" where
  "group cp i = (case cp i of None \<Rightarrow> [] | Some s \<Rightarrow> s)"

text \<open>One given character.\<close>

definition lit :: "char \<Rightarrow> re" where
  "lit c = Chr (\<lambda>x. x = c)"

text \<open>
  The classes of white space, of decimal digits and of the dot, on code units below 256:
  white space and line terminators; the digits 0 to 9; anything but a line terminator.
  \<open>isBox\<close> is the class of \<open>x\<close> and the space under the flag \<open>i\<close>.
\<close>

definition isSpace :: "char \<Rightarrow> bool" where
  "isSpace c = ((of_char c :: nat) \<in> {9, 10, 11, 12, 13, 32, 160})"

definition isDigit :: "char \<Rightarrow> bool" where
  "isDigit c = (48 \<le> (of_char c :: nat) \<and> (of_char c :: nat) \<le> 57)"

definition isDot :: "char \<Rightarrow> bool" where
  "isDot c = (c \<noteq> CHR 0x0A \<and> c \<noteq> CHR 0x0D)"

definition isBox :: "char \<Rightarrow> bool" where
  "isBox c = (c = CHR ''x'' \<or> c = CHR ''X'' \<or> c = CHR '' '')"

subsection \<open>parseSubtasks (lines 174-210)\<close>

text \<open>
  The pattern of line 181 for a phase heading: start, three number signs, white space
  once or more, group 1 of one or more characters, end.
\<close>

definition phaseRe :: "re list" where
  "phaseRe = [lit CHR ''#'', lit CHR ''#'', lit CHR ''#'', Chr isSpace, Star isSpace,
              Open 1, Chr isDot, Star isDot, Close 1, End]"

text \<open>
  The pattern of line 188 for a checkbox: start, white space, optionally digits with a dot
  and white space, an opening bracket, group 1 of one character of \<open>isBox\<close>, a closing
  bracket, white space once or more, group 2 of one or more characters, end.
\<close>

definition checkboxRe :: "re list" where
  "checkboxRe = [Star isSpace, Opt [Chr isDigit, Star isDigit, lit CHR ''.'', Star isSpace],
                 lit CHR ''['', Open 1, Chr isBox, Close 1, lit CHR '']'',
                 Chr isSpace, Star isSpace, Open 2, Chr isDot, Star isDot, Close 2, End]"

text \<open>
  The pattern of line 199 for a numbered task: start, white space, group 1 of digits, a
  dot, white space once or more, no opening bracket ahead, group 2 of one or more
  characters, end.
\<close>

definition numberedRe :: "re list" where
  "numberedRe = [Star isSpace, Open 1, Chr isDigit, Star isDigit, Close 1, lit CHR ''.'',
                 Chr isSpace, Star isSpace, NotAhead [lit CHR ''[''],
                 Open 2, Chr isDot, Star isDot, Close 2, End]"

text \<open>\<open>String.prototype.trim\<close>: white space and line terminators go from both ends.\<close>

definition trim :: "string \<Rightarrow> string" where
  "trim s = rev (dropWhile isSpace (rev (dropWhile isSpace s)))"

text \<open>\<open>String.prototype.toLowerCase\<close>, on code units below 256.\<close>

definition lowerChar :: "char \<Rightarrow> char" where
  "lowerChar c =
     (let n = (of_char c :: nat)
      in if (65 \<le> n \<and> n \<le> 90) \<or> (192 \<le> n \<and> n \<le> 222 \<and> n \<noteq> 215) then char_of (n + 32) else c)"

definition toLowerCase :: "string \<Rightarrow> string" where
  "toLowerCase s = map lowerChar s"

text \<open>The loop of \<open>parseSubtasks\<close> with \<open>currentPhase\<close> as an argument; \<open>continue\<close> is the next line.\<close>

fun parseLines :: "string option \<Rightarrow> string list \<Rightarrow> subtask list" where
  "parseLines currentPhase [] = []"
| "parseLines currentPhase (line # rest) =
     (case matchStart phaseRe line of
        Some phaseMatch \<Rightarrow> parseLines (Some (trim (group phaseMatch 1))) rest
      | None \<Rightarrow>
          (case matchStart checkboxRe line of
             Some checkboxMatch \<Rightarrow>
               \<lparr>taskText = trim (group checkboxMatch 2),
                completed = (toLowerCase (group checkboxMatch 1) = ''x''),
                phase = currentPhase\<rparr> # parseLines currentPhase rest
           | None \<Rightarrow>
               (case matchStart numberedRe line of
                  Some numberedMatch \<Rightarrow>
                    \<lparr>taskText = trim (group numberedMatch 2),
                     completed = False,
                     phase = currentPhase\<rparr> # parseLines currentPhase rest
                | None \<Rightarrow> parseLines currentPhase rest)))"

definition parseSubtasks :: "string \<Rightarrow> subtask list" where
  "parseSubtasks content = parseLines None (split_sep CHR 0x0A content)"

subsection \<open>parseFeatureFile (lines 107-169)\<close>

text \<open>
  The first capture group of each of the six \<open>content.match\<close> calls of lines 133-163,
  \<open>None\<close> when the pattern does not match. These patterns extract the fields of the
  markdown text; they are a parameter of \<open>parseFeatureFile\<close> here, as is \<open>generateHash\<close>
  (eight hexadecimal digits of the MD5 digest of the content).
\<close>

record matches =
  featureMatch :: "string option"
  priorityMatch :: "string option"
  complexityMatch :: "string option"
  sessionsMatch :: "string option"
  descriptionMatch :: "string option"
  subtasksMatch :: "string option"

definition parseFeatureFile ::
  "char \<Rightarrow> (string \<Rightarrow> string) \<Rightarrow> (string \<Rightarrow> matches) \<Rightarrow> string \<Rightarrow> string \<Rightarrow> feature" where
  "parseFeatureFile sep generateHash match content path =
     \<lparr>title = map_option trim (featureMatch (match content)),
      priority = map_option trim (priorityMatch (match content)),
      complexity = map_option trim (complexityMatch (match content)),
      estimatedSessions = map_option trim (sessionsMatch (match content)),
      description = map_option trim (descriptionMatch (match content)),
      subtasks = (case subtasksMatch (match content) of
                    None \<Rightarrow> []
                  | Some section \<Rightarrow> parseSubtasks section),
      status = statusFromPath sep path,
      filePath = path,
      hash = generateHash content\<rparr>"

subsection \<open>Rendering a feature (createSubtaskBlocks and syncFeature, lines 304-423)\<close>

text \<open>
  The loop of \<open>createSubtaskBlocks\<close>, with \<open>currentPhase\<close> as an argument: a heading when
  the task has a phase (not \<open>null\<close>, not empty) that differs from the current one.
\<close>

fun createSubtaskBlocksLoop :: "string option \<Rightarrow> subtask list \<Rightarrow> block list" where
  "createSubtaskBlocksLoop currentPhase [] = []"
| "createSubtaskBlocksLoop currentPhase (task # rest) =
     (case phase task of
        None \<Rightarrow> ToDo (taskText task) (completed task) # createSubtaskBlocksLoop currentPhase rest
      | Some ph \<Rightarrow>
          if ph \<noteq> [] \<and> Some ph \<noteq> currentPhase
          then Heading3 ph # ToDo (taskText task) (completed task)
                 # createSubtaskBlocksLoop (Some ph) rest
          else ToDo (taskText task) (completed task) # createSubtaskBlocksLoop currentPhase rest)"

definition createSubtaskBlocks :: "subtask list \<Rightarrow> block list" where
  "createSubtaskBlocks tasks = createSubtaskBlocksLoop None tasks"

text \<open>
  \<open>description.match(/.{1,1900}/gs) || []\<close>: with the flag \<open>s\<close> the dot matches every code
  unit, so the matches are the successive pieces of 1900 code units, the last one shorter.
\<close>

function chunks :: "string \<Rightarrow> string list" where
  "chunks s = (if s = [] then [] else take 1900 s # chunks (drop 1900 s))"
  by pat_completeness auto
termination
  by (relation "measure length") auto

declare chunks.simps [simp del]

text \<open>The \<open>properties\<close> object of lines 354-378.\<close>

definition featureProperties :: "feature \<Rightarrow> string option \<Rightarrow> properties" where
  "featureProperties feature projectPageId' =
     FeatureProperties (title feature) (status feature) projectPageId'
       (if truthy (priority feature) then priority feature else None)
       (if truthy (complexity feature) then complexity feature else None)"

text \<open>The \<open>children\<close> array of lines 381-423.\<close>

definition featureChildren :: "feature \<Rightarrow> block list" where
  "featureChildren feature =
     (case description feature of
        None \<Rightarrow> []
      | Some d \<Rightarrow> if d \<noteq> [] then map Paragraph (chunks d) else [])
     @ (if subtasks feature \<noteq> []
        then [Divider, SubtasksHeading] @ createSubtaskBlocks (subtasks feature)
        else [])
     @ [Divider, SourceRef (filePath feature)]"

subsection \<open>findProjectPage and findFeaturePage (lines 262-299)\<close>

text \<open>Both catch every error of the query and return \<open>null\<close> then.\<close>

definition findProjectPage ::
  "'r notion \<Rightarrow> config \<Rightarrow> string \<Rightarrow> 'r world \<Rightarrow> string option \<times> 'r world" where
  "findProjectPage N cfg projectName w =
     (case request (databases_query N (projectsDbId cfg) (NameEquals projectName))
             (DatabasesQuery (projectsDbId cfg) (NameEquals projectName)) w of
        (Inr results, w1) \<Rightarrow> ((case results of [] \<Rightarrow> None | r # _ \<Rightarrow> Some r), w1)
      | (Inl e, w1) \<Rightarrow> (None, w1))"

definition findFeaturePage ::
  "'r notion \<Rightarrow> config \<Rightarrow> string option \<Rightarrow> string option \<Rightarrow> 'r world
     \<Rightarrow> string option \<times> 'r world" where
  "findFeaturePage N cfg featureTitle projectPageId' w =
     (case request
             (databases_query N (featuresDbId cfg)
                (NameEqualsAndProjectContains featureTitle projectPageId'))
             (DatabasesQuery (featuresDbId cfg)
                (NameEqualsAndProjectContains featureTitle projectPageId')) w of
        (Inr results, w1) \<Rightarrow> ((case results of [] \<Rightarrow> None | r # _ \<Rightarrow> Some r), w1)
      | (Inl e, w1) \<Rightarrow> (None, w1))"

subsection \<open>syncFeature (lines 338-474)\<close>

datatype action = created | updated | unchanged

text \<open>The loop of lines 438-444: every block is deleted, an error of a deletion is ignored.\<close>

fun deleteBlocks :: "'r notion \<Rightarrow> string list \<Rightarrow> 'r world \<Rightarrow> 'r world" where
  "deleteBlocks N [] w = w"
| "deleteBlocks N (b # bs) w =
     deleteBlocks N bs (snd (request (blocks_delete N b) (BlocksDelete b) w))"

text \<open>
  The body of the \<open>try\<close> of lines 430-455: patch the properties, list the children, delete
  them, append the new children. \<open>Inl\<close> is the exception the \<open>catch\<close> of line 456 receives.
\<close>

definition updateExisting ::
  "'r notion \<Rightarrow> string \<Rightarrow> properties \<Rightarrow> block list \<Rightarrow> 'r world \<Rightarrow> (error + unit) \<times> 'r world" where
  "updateExisting N pid props children w =
     (case request (pages_update N pid (SetProperties props))
             (PagesUpdate pid (SetProperties props)) w of
        (Inl e, w1) \<Rightarrow> (Inl e, w1)
      | (Inr u, w1) \<Rightarrow>
          (case request (blocks_children_list N pid) (BlocksChildrenList pid) w1 of
             (Inl e, w2) \<Rightarrow> (Inl e, w2)
           | (Inr existingBlocks, w2) \<Rightarrow>
               (let w3 = deleteBlocks N existingBlocks w2
                in if children \<noteq> []
                   then request (blocks_children_append N pid children)
                          (BlocksChildrenAppend pid children) w3
                   else (Inr (), w3))))"

text \<open>
  Lines 353-473, entered with the value of \<open>existingPageId\<close>: update the page when the id
  is truthy; create a page when it is not, or when the update threw.
\<close>

definition updateOrCreate ::
  "'r notion \<Rightarrow> config \<Rightarrow> feature \<Rightarrow> string option \<Rightarrow> string option \<Rightarrow> 'r world
     \<Rightarrow> (error + string \<times> action) \<times> 'r world" where
  "updateOrCreate N cfg feature projectPageId' existingPageId w =
     (let props = featureProperties feature projectPageId';
          children = featureChildren feature;
          attempt =
            (case existingPageId of
               None \<Rightarrow> (None, w)
             | Some pid \<Rightarrow>
                 if pid = [] then (None, w)
                 else (case updateExisting N pid props children w of
                         (Inr u, w1) \<Rightarrow> (Some pid, w1)
                       | (Inl e, w1) \<Rightarrow> (None, w1)))
      in case attempt of
           (Some pid, w1) \<Rightarrow> (Inr (pid, updated), w1)
         | (None, w1) \<Rightarrow>
             (case request (pages_create N (featuresDbId cfg) props children)
                     (PagesCreate (featuresDbId cfg) props children) w1 of
                (Inl e, w2) \<Rightarrow> (Inl e, w2)
              | (Inr pid, w2) \<Rightarrow> (Inr (pid, created), w2)))"

text \<open>
  \<open>syncFeature\<close>: \<open>Inl\<close> is the exception it throws (only \<open>notion.pages.create\<close> can make
  it throw), \<open>Inr\<close> the object \<open>{ pageId, action }\<close> it returns.
\<close>

definition syncFeature ::
  "'r notion \<Rightarrow> config \<Rightarrow> feature \<Rightarrow> string option \<Rightarrow> mapping \<Rightarrow> 'r world
     \<Rightarrow> (error + string \<times> action) \<times> 'r world" where
  "syncFeature N cfg feature projectPageId' mapping w =
     (let existingPageId = map_of (featurePageIds mapping) (filePath feature);
          existingHash = map_of (contentHashes mapping) (filePath feature)
      in case existingPageId of
           None \<Rightarrow> updateOrCreate N cfg feature projectPageId' existingPageId w
         | Some pid \<Rightarrow>
             if pid \<noteq> [] \<and> existingHash = Some (hash feature)
             then (case request (pages_retrieve N pid) (PagesRetrieve pid) w of
                     (Inr u, w1) \<Rightarrow> (Inr (pid, unchanged), w1)
                   | (Inl e, w1) \<Rightarrow> updateOrCreate N cfg feature projectPageId' existingPageId w1)
             else updateOrCreate N cfg feature projectPageId' existingPageId w)"

subsection \<open>syncProject (lines 479-554)\<close>

text \<open>\<open>readme.substring(0, 500) + (readme.length > 500 ? '...' : '')\<close>.\<close>

definition excerpt :: "string \<Rightarrow> string" where
  "excerpt readme = take 500 readme @ (if length readme > 500 then ''...'' else [])"

text \<open>The \<open>else\<close> branch of lines 513-553: the project page is created.\<close>

definition createProject ::
  "'r notion \<Rightarrow> config \<Rightarrow> string \<Rightarrow> string option \<Rightarrow> 'r world
     \<Rightarrow> (error + string \<times> action) \<times> 'r world" where
  "createProject N cfg projectName readme w =
     (let props = ProjectProperties projectName;
          children =
            (case readme of
               None \<Rightarrow> []
             | Some text \<Rightarrow> if text \<noteq> [] then [ReadmeCallout (excerpt text)] else [])
            @ [Divider, KanbanInstructions projectName]
      in case request (pages_create N (projectsDbId cfg) props children)
                (PagesCreate (projectsDbId cfg) props children) w of
           (Inl e, w1) \<Rightarrow> (Inl e, w1)
         | (Inr pid, w1) \<Rightarrow> (Inr (pid, created), w1))"

definition syncProject ::
  "'r notion \<Rightarrow> config \<Rightarrow> string \<Rightarrow> string option \<Rightarrow> nat \<Rightarrow> mapping \<Rightarrow> 'r world
     \<Rightarrow> (error + string \<times> action) \<times> 'r world" where
  "syncProject N cfg projectName readme featureCount mapping w =
     (let (pageId1, w1) =
            (case projectPageId mapping of
               None \<Rightarrow> (None, w)
             | Some pid \<Rightarrow>
                 if pid = [] then (Some pid, w)
                 else (case request (pages_retrieve N pid) (PagesRetrieve pid) w of
                         (Inr u, w') \<Rightarrow> (Some pid, w')
                       | (Inl e, w') \<Rightarrow> (None, w')));
          (pageId2, w2) =
            (if \<not> truthy pageId1 then findProjectPage N cfg projectName w1 else (pageId1, w1));
          props = ProjectProperties projectName
      in case pageId2 of
           Some pid \<Rightarrow>
             if pid \<noteq> []
             then (case request (pages_update N pid (SetProperties props))
                          (PagesUpdate pid (SetProperties props)) w2 of
                     (Inl e, w3) \<Rightarrow> (Inl e, w3)
                   | (Inr u, w3) \<Rightarrow> (Inr (pid, updated), w3))
             else createProject N cfg projectName readme w2
         | None \<Rightarrow> createProject N cfg projectName readme w2)"

subsection \<open>cleanupDeletedFeatures (lines 559-583)\<close>

text \<open>
  The loop over \<open>Object.entries(mapping.featurePageIds)\<close>. The entries are those of the
  table when the loop starts; \<open>currentPaths\<close> is the set of scanned paths; \<open>archived\<close>
  counts the archive requests that succeeded. Both branches of the \<open>try\<close> delete the two
  entries of the path.
\<close>

fun cleanupLoop ::
  "'r notion \<Rightarrow> string set \<Rightarrow> (string \<times> string) list \<Rightarrow> mapping \<Rightarrow> nat \<Rightarrow> 'r world
     \<Rightarrow> (mapping \<times> nat) \<times> 'r world" where
  "cleanupLoop N currentPaths [] mapping archived w = ((mapping, archived), w)"
| "cleanupLoop N currentPaths ((path, pageId) # rest) mapping archived w =
     (if path \<notin> currentPaths
      then (case request (pages_update N pageId SetArchived) (PagesUpdate pageId SetArchived) w of
              (Inr u, w1) \<Rightarrow>
                cleanupLoop N currentPaths rest
                  (mapping\<lparr>featurePageIds := AList.delete path (featurePageIds mapping),
                           contentHashes := AList.delete path (contentHashes mapping)\<rparr>)
                  (Suc archived) w1
            | (Inl e, w1) \<Rightarrow>
                cleanupLoop N currentPaths rest
                  (mapping\<lparr>featurePageIds := AList.delete path (featurePageIds mapping),
                           contentHashes := AList.delete path (contentHashes mapping)\<rparr>)
                  archived w1)
      else cleanupLoop N currentPaths rest mapping archived w)"

definition cleanupDeletedFeatures ::
  "'r notion \<Rightarrow> feature list \<Rightarrow> string option \<Rightarrow> mapping \<Rightarrow> 'r world
     \<Rightarrow> (mapping \<times> nat) \<times> 'r world" where
  "cleanupDeletedFeatures N currentFeatures projectPageId' mapping w =
     cleanupLoop N (set (map filePath currentFeatures)) (featurePageIds mapping) mapping 0 w"

subsection \<open>The body of syncToNotion between loading and saving (lines 636-670)\<close>

text \<open>The counters \<open>created\<close>, \<open>updated\<close>, \<open>unchanged\<close> of line 644.\<close>

record counts =
  createdCount :: nat
  updatedCount :: nat
  unchangedCount :: nat

fun count :: "action \<Rightarrow> counts \<Rightarrow> counts" where
  "count created c = c\<lparr>createdCount := Suc (createdCount c)\<rparr>"
| "count updated c = c\<lparr>updatedCount := Suc (updatedCount c)\<rparr>"
| "count unchanged c = c\<lparr>unchangedCount := Suc (unchangedCount c)\<rparr>"

text \<open>
  The loop of lines 646-661. An exception of \<open>syncFeature\<close> is not caught in the loop: it
  leaves the loop, with the features after it not visited.
\<close>

fun syncFeatures ::
  "'r notion \<Rightarrow> config \<Rightarrow> feature list \<Rightarrow> mapping \<Rightarrow> counts \<Rightarrow> 'r world
     \<Rightarrow> (error + mapping \<times> counts) \<times> 'r world" where
  "syncFeatures N cfg [] mapping c w = (Inr (mapping, c), w)"
| "syncFeatures N cfg (feature # rest) mapping c w =
     (case syncFeature N cfg feature (projectPageId mapping) mapping w of
        (Inl e, w1) \<Rightarrow> (Inl e, w1)
      | (Inr (pageId, act), w1) \<Rightarrow>
          syncFeatures N cfg rest
            (mapping\<lparr>featurePageIds := AList.update (filePath feature) pageId (featurePageIds mapping),
                     contentHashes := AList.update (filePath feature) (hash feature) (contentHashes mapping)\<rparr>)
            (count act c) w1)"

text \<open>
  Lines 636-670: the project, the features, the cleanup, the time stamp. \<open>now\<close> is
  \<open>new Date().toISOString()\<close>. The result is the exception that reaches the \<open>catch\<close> of
  line 690, or the mapping handed to \<open>saveMapping\<close> with the counters, the number of
  archived pages and the action taken for the project.
\<close>

definition reconcile ::
  "'r notion \<Rightarrow> config \<Rightarrow> string \<Rightarrow> string option \<Rightarrow> feature list \<Rightarrow> string \<Rightarrow> mapping
     \<Rightarrow> 'r world \<Rightarrow> (error + mapping \<times> counts \<times> nat \<times> action) \<times> 'r world" where
  "reconcile N cfg projectName readme features now mapping w =
     (case syncProject N cfg projectName readme (length features) mapping w of
        (Inl e, w1) \<Rightarrow> (Inl e, w1)
      | (Inr (projectId, projectAction), w1) \<Rightarrow>
          (case syncFeatures N cfg features (mapping\<lparr>projectPageId := Some projectId\<rparr>)
                  \<lparr>createdCount = 0, updatedCount = 0, unchangedCount = 0\<rparr> w1 of
             (Inl e, w2) \<Rightarrow> (Inl e, w2)
           | (Inr (mapping2, c), w2) \<Rightarrow>
               (case cleanupDeletedFeatures N features (projectPageId mapping2) mapping2 w2 of
                  ((mapping3, archived), w3) \<Rightarrow>
                    (Inr (mapping3\<lparr>lastSync := Some now\<rparr>, c, archived, projectAction), w3))))"

subsection \<open>JSON text: JSON.parse and JSON.stringify\<close>

text \<open>
  The mapping file is read with \<open>JSON.parse\<close> and written with
  \<open>JSON.stringify(mapping, null, 2)\<close>. Both are built into the runtime; they are modelled
  here after the JSON grammar. A text is a \<open>string\<close>. A string inside a JSON value is a
  list of UTF-16 code units, since an escape of a text (a backslash, the letter u and four hexadecimal digits) can denote any of them.
  A number is kept as its lexeme. An object is the list of its members in insertion order.
\<close>

datatype json =
    JNull
  | JBool bool
  | JNumber string
  | JString "nat list"
  | JArray "json list"
  | JObject "(nat list \<times> json) list"

text \<open>JSON whitespace: space, tab, line feed, carriage return.\<close>

definition isWs :: "char \<Rightarrow> bool" where
  "isWs c = (c = CHR '' '' \<or> c = CHR 0x09 \<or> c = CHR 0x0A \<or> c = CHR 0x0D)"

definition skipWs :: "string \<Rightarrow> string" where
  "skipWs s = dropWhile isWs s"

text \<open>The value of a hexadecimal digit, of either case, and of four of them.\<close>

definition hexValue :: "char \<Rightarrow> nat option" where
  "hexValue c =
     (let n = (of_char c :: nat)
      in if 48 \<le> n \<and> n \<le> 57 then Some (n - 48)
         else if 97 \<le> n \<and> n \<le> 102 then Some (n - 87)
         else if 65 \<le> n \<and> n \<le> 70 then Some (n - 55)
         else None)"

definition hex4 :: "char \<Rightarrow> char \<Rightarrow> char \<Rightarrow> char \<Rightarrow> nat option" where
  "hex4 a b c d =
     (case (hexValue a, hexValue b, hexValue c, hexValue d) of
        (Some x3, Some x2, Some x1, Some x0) \<Rightarrow> Some (((x3 * 16 + x2) * 16 + x1) * 16 + x0)
      | _ \<Rightarrow> None)"

text \<open>The code unit a one-letter escape stands for.\<close>

definition simpleEscape :: "char \<Rightarrow> nat option" where
  "simpleEscape e =
     (if e = CHR 0x22 then Some 34
      else if e = CHR 0x5C then Some 92
      else if e = CHR ''/'' then Some 47
      else if e = CHR ''b'' then Some 8
      else if e = CHR ''f'' then Some 12
      else if e = CHR ''n'' then Some 10
      else if e = CHR ''r'' then Some 13
      else if e = CHR ''t'' then Some 9
      else None)"

definition consUnit :: "nat \<Rightarrow> (nat list \<times> string) option \<Rightarrow> (nat list \<times> string) option" where
  "consUnit n r = (case r of None \<Rightarrow> None | Some (str, rest) \<Rightarrow> Some (n # str, rest))"

text \<open>
  The characters of a string after its opening quote, up to the closing quote: an escape,
  or any character other than the quote, the backslash and the control characters.
\<close>

fun parseChars :: "string \<Rightarrow> (nat list \<times> string) option" where
  "parseChars [] = None"
| "parseChars (c # cs) =
     (if c = CHR 0x22 then Some ([], cs)
      else if c = CHR 0x5C then
        (case cs of
           [] \<Rightarrow> None
         | e # r \<Rightarrow>
             if e = CHR ''u'' then
               (case r of
                  h3 # h2 # h1 # h0 # r' \<Rightarrow>
                    (case hex4 h3 h2 h1 h0 of
                       None \<Rightarrow> None
                     | Some n \<Rightarrow> consUnit n (parseChars r'))
                | _ \<Rightarrow> None)
             else
               (case simpleEscape e of
                  None \<Rightarrow> None
                | Some n \<Rightarrow> consUnit n (parseChars r)))
      else if (of_char c :: nat) < 32 then None
      else consUnit (of_char c) (parseChars cs))"

text \<open>
  A number: an optional minus, an integer part without leading zeros, an optional
  fraction, an optional exponent. The lexeme and the rest of the text are returned.
\<close>

definition parseFraction :: "string \<Rightarrow> (string \<times> string) option" where
  "parseFraction s =
     (case s of
        [] \<Rightarrow> Some ([], s)
      | c # r \<Rightarrow>
          if c = CHR ''.'' then
            (if takeWhile isDigit r = [] then None
             else Some (c # takeWhile isDigit r, dropWhile isDigit r))
          else Some ([], s))"

definition parseSign :: "string \<Rightarrow> string \<times> string" where
  "parseSign s =
     (case s of
        [] \<Rightarrow> ([], s)
      | c # r \<Rightarrow> if c = CHR ''+'' \<or> c = CHR ''-'' then ([c], r) else ([], s))"

definition parseExponent :: "string \<Rightarrow> (string \<times> string) option" where
  "parseExponent s =
     (case s of
        [] \<Rightarrow> Some ([], s)
      | c # r \<Rightarrow>
          if c = CHR ''e'' \<or> c = CHR ''E'' then
            (case parseSign r of
               (sg, r1) \<Rightarrow>
                 if takeWhile isDigit r1 = [] then None
                 else Some (c # sg @ takeWhile isDigit r1, dropWhile isDigit r1))
          else Some ([], s))"

definition parseInteger :: "string \<Rightarrow> (string \<times> string) option" where
  "parseInteger s =
     (case s of
        [] \<Rightarrow> None
      | d # r \<Rightarrow>
          if \<not> isDigit d then None
          else if d = CHR ''0'' then Some ([d], r)
          else Some (d # takeWhile isDigit r, dropWhile isDigit r))"

definition parseNumber :: "string \<Rightarrow> (string \<times> string) option" where
  "parseNumber s =
     (case (case s of [] \<Rightarrow> ([], s) | c # r \<Rightarrow> if c = CHR ''-'' then ([c], r) else ([], s)) of
        (neg, s1) \<Rightarrow>
          (case parseInteger s1 of
             None \<Rightarrow> None
           | Some (ip, s2) \<Rightarrow>
               (case parseFraction s2 of
                  None \<Rightarrow> None
                | Some (fp, s3) \<Rightarrow>
                    (case parseExponent s3 of
                       None \<Rightarrow> None
                     | Some (ep, s4) \<Rightarrow> Some (neg @ ip @ fp @ ep, s4)))))"

text \<open>The literals \<open>null\<close>, \<open>true\<close>, \<open>false\<close>, or a number.\<close>

definition parseAtom :: "string \<Rightarrow> (json \<times> string) option" where
  "parseAtom s =
     (if take 4 s = ''null'' then Some (JNull, drop 4 s)
      else if take 4 s = ''true'' then Some (JBool True, drop 4 s)
      else if take 5 s = ''false'' then Some (JBool False, drop 5 s)
      else (case parseNumber s of
              None \<Rightarrow> None
            | Some (lexeme, r) \<Rightarrow> Some (JNumber lexeme, r)))"

text \<open>
  A value, the elements of an array after its first bracket, the members of an object
  after its first brace. A member whose key is already there replaces the value of that
  key and keeps its place, as a repeated key does in \<open>JSON.parse\<close>. The tests
  \<open>length r < length s\<close> hold whenever they are reached, a value being at least one
  character long; they make the recursion visibly terminate.
\<close>

function parseValue :: "string \<Rightarrow> (json \<times> string) option"
  and parseElements :: "string \<Rightarrow> json list \<Rightarrow> (json list \<times> string) option"
  and parseMembers :: "string \<Rightarrow> (nat list \<times> json) list \<Rightarrow> ((nat list \<times> json) list \<times> string) option"
where
  "parseValue s =
     (case skipWs s of
        [] \<Rightarrow> None
      | c # r \<Rightarrow>
          if c = CHR ''{'' then
            (case skipWs r of
               [] \<Rightarrow> None
             | c2 # r2 \<Rightarrow>
                 if c2 = CHR ''}'' then Some (JObject [], r2)
                 else (case parseMembers r [] of
                         None \<Rightarrow> None
                       | Some (ms, r3) \<Rightarrow> Some (JObject ms, r3)))
          else if c = CHR ''['' then
            (case skipWs r of
               [] \<Rightarrow> None
             | c2 # r2 \<Rightarrow>
                 if c2 = CHR '']'' then Some (JArray [], r2)
                 else (case parseElements r [] of
                         None \<Rightarrow> None
                       | Some (vs, r3) \<Rightarrow> Some (JArray vs, r3)))
          else if c = CHR 0x22 then
            (case parseChars r of
               None \<Rightarrow> None
             | Some (str, r2) \<Rightarrow> Some (JString str, r2))
          else parseAtom (c # r))"
| "parseElements s acc =
     (case parseValue s of
        None \<Rightarrow> None
      | Some (v, r) \<Rightarrow>
          if length r < length s then
            (case skipWs r of
               [] \<Rightarrow> None
             | d # r' \<Rightarrow>
                 if d = CHR '','' then parseElements r' (acc @ [v])
                 else if d = CHR '']'' then Some (acc @ [v], r')
                 else None)
          else None)"
| "parseMembers s acc =
     (case skipWs s of
        [] \<Rightarrow> None
      | q # r \<Rightarrow>
          if q \<noteq> CHR 0x22 then None
          else (case parseChars r of
                  None \<Rightarrow> None
                | Some (key, r1) \<Rightarrow>
                    (case skipWs r1 of
                       [] \<Rightarrow> None
                     | colon # r2 \<Rightarrow>
                         if colon \<noteq> CHR '':'' \<or> \<not> length r2 < length s then None
                         else (case parseValue r2 of
                                 None \<Rightarrow> None
                               | Some (v, r3) \<Rightarrow>
                                   if length r3 < length r2 then
                                     (case skipWs r3 of
                                        [] \<Rightarrow> None
                                      | d # r4 \<Rightarrow>
                                          if d = CHR '','' then parseMembers r4 (AList.update key v acc)
                                          else if d = CHR ''}'' then Some (AList.update key v acc, r4)
                                          else None)
                                   else None))))"
  by pat_completeness auto
termination
proof -
  have dw: "length r < length s" if "dropWhile P s = c # r" for P and s :: string and c r
    using length_dropWhile_le [of P s] that by simp
  show ?thesis
    by (relation "measure (\<lambda>x. case x of Inl s \<Rightarrow> 2 * length s
                                 | Inr (Inl (s, acc)) \<Rightarrow> 2 * length s + 1
                                 | Inr (Inr (s, acc)) \<Rightarrow> 2 * length s + 1)")
       (auto simp: skipWs_def dest!: dw)
qed

declare parseValue.simps [simp del] parseElements.simps [simp del] parseMembers.simps [simp del]

text \<open>\<open>JSON.parse(text)\<close>: one value, with nothing but whitespace after it. \<open>None\<close> is the SyntaxError.\<close>

definition JSON_parse :: "string \<Rightarrow> json option" where
  "JSON_parse text =
     (case parseValue text of
        None \<Rightarrow> None
      | Some (v, r) \<Rightarrow> if skipWs r = [] then Some v else None)"

text \<open>
  \<open>JSON.stringify\<close> quotes a string: the quote, the backslash and the control characters
  are escaped. A code unit above 255 has no place in a \<open>string\<close>; it is written as the
  escape with four hexadecimal digits, which denotes the same value.
\<close>

definition hexDigit :: "nat \<Rightarrow> char" where
  "hexDigit d = (if d < 10 then char_of (48 + d) else char_of (87 + d))"

definition hex4text :: "nat \<Rightarrow> string" where
  "hex4text n =
     [hexDigit (n div 4096 mod 16), hexDigit (n div 256 mod 16),
      hexDigit (n div 16 mod 16), hexDigit (n mod 16)]"

definition quoteUnit :: "nat \<Rightarrow> string" where
  "quoteUnit n =
     (if n = 34 then [CHR 0x5C, CHR 0x22]
      else if n = 92 then [CHR 0x5C, CHR 0x5C]
      else if n = 8 then [CHR 0x5C, CHR ''b'']
      else if n = 9 then [CHR 0x5C, CHR ''t'']
      else if n = 10 then [CHR 0x5C, CHR ''n'']
      else if n = 12 then [CHR 0x5C, CHR ''f'']
      else if n = 13 then [CHR 0x5C, CHR ''r'']
      else if n < 32 \<or> 256 \<le> n then CHR 0x5C # CHR ''u'' # hex4text n
      else [char_of n])"

definition quoteJSONString :: "nat list \<Rightarrow> string" where
  "quoteJSONString s = CHR 0x22 # concat (map quoteUnit s) @ [CHR 0x22]"

text \<open>A line break and the indentation of a nesting level, two spaces per level.\<close>

definition newline :: "nat \<Rightarrow> string" where
  "newline level = CHR 0x0A # replicate (2 * level) CHR '' ''"

text \<open>
  The text of a value at a nesting level, with the gap of two spaces: an empty array or
  object on one line, otherwise one element or member per line.
\<close>

fun stringify :: "nat \<Rightarrow> json \<Rightarrow> string"
  and stringifyElements :: "nat \<Rightarrow> json list \<Rightarrow> string"
  and stringifyMembers :: "nat \<Rightarrow> (nat list \<times> json) list \<Rightarrow> string"
where
  "stringify level JNull = ''null''"
| "stringify level (JBool b) = (if b then ''true'' else ''false'')"
| "stringify level (JNumber lexeme) = lexeme"
| "stringify level (JString s) = quoteJSONString s"
| "stringify level (JArray vs) =
     (if vs = [] then ''[]''
      else ''['' @ newline (Suc level) @ stringifyElements (Suc level) vs @ newline level @ '']'')"
| "stringify level (JObject ms) =
     (if ms = [] then ''{}''
      else ''{'' @ newline (Suc level) @ stringifyMembers (Suc level) ms @ newline level @ ''}'')"
| "stringifyElements level [] = []"
| "stringifyElements level (v # vs) =
     stringify level v @ (if vs = [] then [] else '','' @ newline level @ stringifyElements level vs)"
| "stringifyMembers level [] = []"
| "stringifyMembers level ((k, v) # ms) =
     quoteJSONString k @ '': '' @ stringify level v
       @ (if ms = [] then [] else '','' @ newline level @ stringifyMembers level ms)"

text \<open>\<open>JSON.stringify(value, null, 2)\<close>.\<close>

definition JSON_stringify :: "json \<Rightarrow> string" where
  "JSON_stringify v = stringify 0 v"

text \<open>
  The values whose text reads back as the same value: no number, code units below 65536,
  no key twice in an object.
\<close>

fun plain :: "json \<Rightarrow> bool" where
  "plain JNull = True"
| "plain (JBool b) = True"
| "plain (JNumber lexeme) = False"
| "plain (JString s) = list_all (\<lambda>n. n < 65536) s"
| "plain (JArray vs) = list_all plain vs"
| "plain (JObject ms) =
     (distinct (map fst ms) \<and> list_all (\<lambda>(k, v). list_all (\<lambda>n. n < 65536) k \<and> plain v) ms)"


subsection \<open>The mapping file (loadMapping and saveMapping, lines 55-78)\<close>

text \<open>
  The files of the working directory: path to content, \<open>None\<close> when \<open>fs.readFile\<close>
  rejects (the file is missing or unreadable). Every write is taken to succeed.
\<close>

type_synonym filesystem = "string \<Rightarrow> string option"

definition mappingFile :: string where
  "mappingFile = ''.notion-sync.json''"

text \<open>The code units of a text, and the text of code units that are all below 256.\<close>

definition js :: "string \<Rightarrow> nat list" where
  "js s = map of_char s"

definition latin1 :: "nat list \<Rightarrow> string option" where
  "latin1 ns = (if list_all (\<lambda>n. n < 256) ns then Some (map char_of ns) else None)"

text \<open>The object literal of lines 60-65.\<close>

definition freshState :: json where
  "freshState =
     JObject [(js ''projectPageId'', JNull),
              (js ''lastSync'', JNull),
              (js ''featurePageIds'', JObject []),
              (js ''contentHashes'', JObject [])]"

text \<open>
  \<open>loadMapping\<close>: whatever \<open>JSON.parse\<close> makes of the file; the fresh state when reading or
  parsing throws.
\<close>

definition loadMapping :: "filesystem \<Rightarrow> json" where
  "loadMapping fs =
     (case fs mappingFile of
        None \<Rightarrow> freshState
      | Some data \<Rightarrow>
          (case JSON_parse data of
             None \<Rightarrow> freshState
           | Some v \<Rightarrow> v))"

definition saveMapping :: "json \<Rightarrow> filesystem \<Rightarrow> filesystem" where
  "saveMapping mapping fs = fs(mappingFile \<mapsto> JSON_stringify mapping)"

text \<open>
  A sync state as an object of the shape of the literal of lines 60-65: the four fields
  in the order of the literal, the ids \<open>null\<close> or strings, the tables objects of strings
  with no key twice, all code units below 256. \<open>mappingToJson\<close> is the object of a
  record, \<open>asMapping\<close> the record of an object of exactly that shape. What the script
  makes of a loaded object of another shape is the matter of the next subsection.
\<close>

definition optJson :: "string option \<Rightarrow> json" where
  "optJson v = (case v of None \<Rightarrow> JNull | Some s \<Rightarrow> JString (js s))"

definition tableJson :: "(string \<times> string) list \<Rightarrow> json" where
  "tableJson t = JObject (map (\<lambda>(k, v). (js k, JString (js v))) t)"

definition mappingToJson :: "mapping \<Rightarrow> json" where
  "mappingToJson m =
     JObject [(js ''projectPageId'', optJson (projectPageId m)),
              (js ''lastSync'', optJson (lastSync m)),
              (js ''featurePageIds'', tableJson (featurePageIds m)),
              (js ''contentHashes'', tableJson (contentHashes m))]"

fun asOpt :: "json \<Rightarrow> string option option" where
  "asOpt JNull = Some None"
| "asOpt (JString s) = map_option Some (latin1 s)"
| "asOpt v = None"

fun asEntries :: "(nat list \<times> json) list \<Rightarrow> (string \<times> string) list option" where
  "asEntries [] = Some []"
| "asEntries ((k, JString v) # ms) =
     (case (latin1 k, latin1 v, asEntries ms) of
        (Some k', Some v', Some t) \<Rightarrow> Some ((k', v') # t)
      | _ \<Rightarrow> None)"
| "asEntries ((k, v) # ms) = None"

fun asTable :: "json \<Rightarrow> (string \<times> string) list option" where
  "asTable (JObject ms) =
     (case asEntries ms of
        None \<Rightarrow> None
      | Some t \<Rightarrow> if distinct (map fst t) then Some t else None)"
| "asTable v = None"

fun asMapping :: "json \<Rightarrow> mapping option" where
  "asMapping (JObject [(k1, p), (k2, l), (k3, ids), (k4, hashes)]) =
     (if k1 = js ''projectPageId'' \<and> k2 = js ''lastSync''
         \<and> k3 = js ''featurePageIds'' \<and> k4 = js ''contentHashes''
      then (case (asOpt p, asOpt l, asTable ids, asTable hashes) of
              (Some p', Some l', Some ids', Some hashes') \<Rightarrow>
                Some \<lparr>projectPageId = p', lastSync = l',
                      featurePageIds = ids', contentHashes = hashes'\<rparr>
            | _ \<Rightarrow> None)
      else None)"
| "asMapping v = None"

subsection \<open>The loaded value as the script uses it\<close>

text \<open>
  The script never checks what \<open>loadMapping\<close> returned. It reads \<open>mapping.projectPageId\<close>,
  looks paths up in \<open>mapping.featurePageIds\<close> and \<open>mapping.contentHashes\<close>, assigns to and
  deletes from these two tables, assigns \<open>mapping.projectPageId\<close> and \<open>mapping.lastSync\<close>,
  and hands the same object to \<open>saveMapping\<close>: the members are looked up by name, in
  whatever order the file has them, and a member the script does not know stays where it
  is.

  \<open>faithful\<close> holds of the values that this model reads and writes as the runtime does:
  every code unit of a string or key is below 256 (the strings of this model); no key is
  made of digits only (the runtime lists such keys before the others, whatever the order
  of insertion); a number is an integer of at most fifteen digits in the form
  \<open>JSON.stringify\<close> prints it in (other lexemes are printed differently from how they
  were read).
\<close>

definition allDigits :: "nat list \<Rightarrow> bool" where
  "allDigits k = (k \<noteq> [] \<and> list_all (\<lambda>n. 48 \<le> n \<and> n \<le> 57) k)"

definition canonicalInteger :: "string \<Rightarrow> bool" where
  "canonicalInteger lexeme =
     (let digits = (case lexeme of [] \<Rightarrow> [] | c # r \<Rightarrow> if c = CHR ''-'' then r else lexeme)
      in digits \<noteq> [] \<and> list_all isDigit digits \<and> length digits \<le> 15
         \<and> (if hd digits = CHR ''0'' then lexeme = ''0'' else True))"

fun faithful :: "json \<Rightarrow> bool" where
  "faithful JNull = True"
| "faithful (JBool b) = True"
| "faithful (JNumber lexeme) = canonicalInteger lexeme"
| "faithful (JString s) = list_all (\<lambda>n. n < 256) s"
| "faithful (JArray vs) = list_all faithful vs"
| "faithful (JObject ms) =
     (distinct (map fst ms)
      \<and> list_all (\<lambda>(k, v). list_all (\<lambda>n. n < 256) k \<and> \<not> allDigits k \<and> faithful v) ms)"


text \<open>\<open>obj.name\<close> for an object with these members: \<open>None\<close> is \<open>undefined\<close>.\<close>

definition readMember :: "(nat list \<times> json) list \<Rightarrow> string \<Rightarrow> json option" where
  "readMember members name = map_of members (js name)"

text \<open>A member that is neither \<open>undefined\<close> nor \<open>null\<close>: reading a property of any other value does not throw.\<close>

fun present :: "json option \<Rightarrow> json option" where
  "present None = None"
| "present (Some JNull) = None"
| "present (Some v) = Some v"

text \<open>A member read as a page id: \<open>undefined\<close> and \<open>null\<close> are both \<open>None\<close>, as they are to every test the script makes; the outer \<open>None\<close> is a value that is no string.\<close>

definition idMember :: "(nat list \<times> json) list \<Rightarrow> string \<Rightarrow> string option option" where
  "idMember members name = (case readMember members name of None \<Rightarrow> Some None | Some v \<Rightarrow> asOpt v)"

fun asText :: "json option \<Rightarrow> string option" where
  "asText (Some (JString s)) = latin1 s"
| "asText v = None"

text \<open>
  What the script finds in a loaded object. \<open>Usable\<close>: the two tables are objects of
  strings, the project page id is a string, \<open>null\<close> or \<open>undefined\<close>; the record holds what
  the script reads. \<open>NoPageIds\<close>: \<open>mapping.featurePageIds\<close> is \<open>undefined\<close> or \<open>null\<close>.
  \<open>NoHashes\<close>: \<open>mapping.contentHashes\<close> is, and \<open>mapping.featurePageIds\<close> is a table.
  \<open>Unsupported\<close>: the object is not \<open>faithful\<close>, or holds a page id or a fingerprint that
  is not a string, or a table that is not an object; the script would hand such values to
  the Notion client, whose requests take strings in this model.
\<close>

datatype view =
    Unsupported
  | NoPageIds "string option"
  | NoHashes "string option" "(string \<times> string) list"
  | Usable mapping

definition viewMapping :: "(nat list \<times> json) list \<Rightarrow> view" where
  "viewMapping members =
     (if \<not> faithful (JObject members) then Unsupported
      else case idMember members ''projectPageId'' of
        None \<Rightarrow> Unsupported
      | Some p \<Rightarrow>
          (case present (readMember members ''featurePageIds'') of
             None \<Rightarrow> NoPageIds p
           | Some ids \<Rightarrow>
               (case asTable ids of
                  None \<Rightarrow> Unsupported
                | Some ids' \<Rightarrow>
                    (case present (readMember members ''contentHashes'') of
                       None \<Rightarrow> NoHashes p ids'
                     | Some hashes \<Rightarrow>
                         (case asTable hashes of
                            None \<Rightarrow> Unsupported
                          | Some hashes' \<Rightarrow>
                              Usable \<lparr>projectPageId = p,
                                      lastSync = asText (readMember members ''lastSync''),
                                      featurePageIds = ids', contentHashes = hashes'\<rparr>)))))"

text \<open>
  The object handed to \<open>saveMapping\<close> at the end of a run on a usable object: the loaded
  members with the four the script has assigned to. \<open>mapping.projectPageId\<close> is assigned
  first (line 639) and \<open>mapping.lastSync\<close> last (line 670), so that is the order in which
  they are added when the file had neither; the two tables are changed in place.
\<close>

definition putMapping :: "mapping \<Rightarrow> (nat list \<times> json) list \<Rightarrow> (nat list \<times> json) list" where
  "putMapping mapping members =
     AList.update (js ''lastSync'') (optJson (lastSync mapping))
       (AList.update (js ''contentHashes'') (tableJson (contentHashes mapping))
          (AList.update (js ''featurePageIds'') (tableJson (featurePageIds mapping))
             (AList.update (js ''projectPageId'') (optJson (projectPageId mapping)) members)))"


subsection \<open>syncToNotion (lines 588-697)\<close>

text \<open>The three environment variables the script requires.\<close>

record env =
  NOTION_TOKEN :: "string option"
  NOTION_PROJECTS_DB_ID :: "string option"
  NOTION_FEATURES_DB_ID :: "string option"

text \<open>The exception of reading a property of \<open>undefined\<close> or \<open>null\<close>.\<close>

definition typeError :: error where
  "typeError = Error ''TypeError''"

text \<open>
  How a run ends: \<open>process.exit(1)\<close> for a missing variable, before anything is read or
  sent; \<open>process.exit(1)\<close> from the \<open>catch\<close> of line 690; or the summary, with the counters,
  the number of archived pages and the action taken for the project.
\<close>

datatype outcome =
    ConfigError string
  | SyncFailed error
  | SyncComplete counts nat action

text \<open>
  What the model says of a run: its outcome with the files and the world after it, or
  nothing at all (\<open>NotCovered\<close>) where the run is on values this model has no type for.
\<close>

datatype 'a covered = NotCovered | Covered 'a

text \<open>
  Lines 636-690 when \<open>mapping.featurePageIds\<close> is \<open>undefined\<close> or \<open>null\<close>, which is also the
  case of a loaded value that is no object (a boolean, a number, a string, an array: none
  has such a property, and the assignment of line 639 to a property of one of them has
  no effect that the run observes). \<open>syncProject\<close> runs; then the first lookup in the table
  (line 339, or line 563 when no feature was scanned) throws a TypeError.
\<close>

definition withoutPageIds ::
  "'r notion \<Rightarrow> config \<Rightarrow> string \<Rightarrow> string option \<Rightarrow> feature list \<Rightarrow> string option
     \<Rightarrow> filesystem \<Rightarrow> 'r world \<Rightarrow> outcome \<times> filesystem \<times> 'r world" where
  "withoutPageIds N cfg projectName readme features p fs w =
     (case syncProject N cfg projectName readme (length features)
             \<lparr>projectPageId = p, lastSync = None, featurePageIds = [], contentHashes = []\<rparr> w of
        (Inl e, w1) \<Rightarrow> (SyncFailed e, fs, w1)
      | (Inr r, w1) \<Rightarrow> (SyncFailed typeError, fs, w1))"

text \<open>
  Lines 636-690 when \<open>mapping.contentHashes\<close> is \<open>undefined\<close> or \<open>null\<close> and
  \<open>mapping.featurePageIds\<close> is a table. After \<open>syncProject\<close>, line 340 throws a TypeError
  for the first feature. With no feature scanned, every entry of the table is stale: the
  archive request of the first one is sent, and \<open>delete mapping.contentHashes[filePath]\<close>
  throws, in the \<open>try\<close> or in the \<open>catch\<close> of the loop; with an empty table the run
  completes.
\<close>

definition withoutHashes ::
  "'r notion \<Rightarrow> config \<Rightarrow> string \<Rightarrow> string option \<Rightarrow> feature list \<Rightarrow> string
     \<Rightarrow> string option \<Rightarrow> (string \<times> string) list \<Rightarrow> (nat list \<times> json) list
     \<Rightarrow> filesystem \<Rightarrow> 'r world \<Rightarrow> outcome \<times> filesystem \<times> 'r world" where
  "withoutHashes N cfg projectName readme features now p ids members fs w =
     (case syncProject N cfg projectName readme (length features)
             \<lparr>projectPageId = p, lastSync = None, featurePageIds = ids, contentHashes = []\<rparr> w of
        (Inl e, w1) \<Rightarrow> (SyncFailed e, fs, w1)
      | (Inr (projectId, projectAction), w1) \<Rightarrow>
          if features \<noteq> [] then (SyncFailed typeError, fs, w1)
          else (case ids of
                  [] \<Rightarrow>
                    (SyncComplete \<lparr>createdCount = 0, updatedCount = 0, unchangedCount = 0\<rparr> 0
                       projectAction,
                     saveMapping
                       (JObject (AList.update (js ''lastSync'') (JString (js now))
                                   (AList.update (js ''projectPageId'') (JString (js projectId))
                                      members))) fs,
                     w1)
                | (path, pageId) # rest \<Rightarrow>
                    (SyncFailed typeError, fs,
                     snd (request (pages_update N pageId SetArchived)
                            (PagesUpdate pageId SetArchived) w1))))"

text \<open>
  The \<open>try\<close> of lines 610-689 on the value \<open>loadMapping\<close> returned. On \<open>null\<close> the first
  statement of \<open>syncProject\<close> (line 480) throws. The mapping file is written at the end of
  a run that did not throw, and nowhere else.
\<close>

definition runLoaded ::
  "'r notion \<Rightarrow> config \<Rightarrow> string \<Rightarrow> string option \<Rightarrow> feature list \<Rightarrow> string \<Rightarrow> json
     \<Rightarrow> filesystem \<Rightarrow> 'r world \<Rightarrow> (outcome \<times> filesystem \<times> 'r world) covered" where
  "runLoaded N cfg projectName readme features now loaded fs w =
     (case loaded of
        JNull \<Rightarrow> Covered (SyncFailed typeError, fs, w)
      | JBool b \<Rightarrow> Covered (withoutPageIds N cfg projectName readme features None fs w)
      | JNumber lexeme \<Rightarrow> Covered (withoutPageIds N cfg projectName readme features None fs w)
      | JString s \<Rightarrow> Covered (withoutPageIds N cfg projectName readme features None fs w)
      | JArray vs \<Rightarrow> Covered (withoutPageIds N cfg projectName readme features None fs w)
      | JObject members \<Rightarrow>
          (case viewMapping members of
             Unsupported \<Rightarrow> NotCovered
           | NoPageIds p \<Rightarrow> Covered (withoutPageIds N cfg projectName readme features p fs w)
           | NoHashes p ids \<Rightarrow>
               Covered (withoutHashes N cfg projectName readme features now p ids members fs w)
           | Usable mapping \<Rightarrow>
               Covered
                 (case reconcile N cfg projectName readme features now mapping w of
                    (Inl e, w') \<Rightarrow> (SyncFailed e, fs, w')
                  | (Inr (mapping', c, archived, projectAction), w') \<Rightarrow>
                      (SyncComplete c archived projectAction,
                       saveMapping (JObject (putMapping mapping' members)) fs, w'))))"

text \<open>
  \<open>syncToNotion\<close>. The project name, the README and the features are what
  \<open>getProjectName\<close>, \<open>readReadme\<close> and \<open>scanRoadmapFeatures\<close> return; \<open>now\<close> is the time
  stamp. The paths of scanned features begin with \<open>roadmapDir\<close>; a list with another
  path is no scan result, and the run on it is not covered (a path could then be the
  name of a property every object inherits).
\<close>

definition syncToNotion ::
  "'r notion \<Rightarrow> env \<Rightarrow> string \<Rightarrow> string option \<Rightarrow> feature list \<Rightarrow> string
     \<Rightarrow> filesystem \<Rightarrow> 'r world \<Rightarrow> (outcome \<times> filesystem \<times> 'r world) covered" where
  "syncToNotion N env projectName readme features now fs w =
     (if \<not> truthy (NOTION_TOKEN env) then Covered (ConfigError ''NOTION_TOKEN'', fs, w)
      else case NOTION_PROJECTS_DB_ID env of
        None \<Rightarrow> Covered (ConfigError ''NOTION_PROJECTS_DB_ID'', fs, w)
      | Some projectsDb \<Rightarrow>
          if projectsDb = [] then Covered (ConfigError ''NOTION_PROJECTS_DB_ID'', fs, w)
          else case NOTION_FEATURES_DB_ID env of
            None \<Rightarrow> Covered (ConfigError ''NOTION_FEATURES_DB_ID'', fs, w)
          | Some featuresDb \<Rightarrow>
              if featuresDb = [] then Covered (ConfigError ''NOTION_FEATURES_DB_ID'', fs, w)
              else if \<not> list_all (\<lambda>f. take (length roadmapDir) (filePath f) = roadmapDir) features
              then NotCovered
              else runLoaded N \<lparr>projectsDbId = projectsDb, featuresDbId = featuresDb\<rparr>
                     projectName readme features now (loadMapping fs) fs w)"

subsection \<open>A remote to run the script against\<close>

text \<open>
  A concrete client for running the model on examples: its answer to a request is given
  by a table \<open>behaviour\<close> from the number of requests answered so far and the request; its
  state is that number.
\<close>

datatype reply = Fails | Succeeds | ReturnsId string | ReturnsIds "string list"

definition asUnit :: "reply \<Rightarrow> error + unit" where
  "asUnit r = (case r of Fails \<Rightarrow> Inl (Error ''rejected'') | _ \<Rightarrow> Inr ())"

definition asId :: "reply \<Rightarrow> error + string" where
  "asId r = (case r of ReturnsId i \<Rightarrow> Inr i | _ \<Rightarrow> Inl (Error ''rejected''))"

definition asIds :: "reply \<Rightarrow> error + string list" where
  "asIds r =
     (case r of
        ReturnsIds is \<Rightarrow> Inr is
      | Fails \<Rightarrow> Inl (Error ''rejected'')
      | _ \<Rightarrow> Inr [])"

definition answering :: "(nat \<Rightarrow> call \<Rightarrow> reply) \<Rightarrow> nat notion" where
  "answering behaviour =
     \<lparr>pages_retrieve = (\<lambda>pid n. (asUnit (behaviour n (PagesRetrieve pid)), Suc n)),
      pages_update = (\<lambda>pid u n. (asUnit (behaviour n (PagesUpdate pid u)), Suc n)),
      blocks_children_list = (\<lambda>pid n. (asIds (behaviour n (BlocksChildrenList pid)), Suc n)),
      blocks_delete = (\<lambda>b n. (asUnit (behaviour n (BlocksDelete b)), Suc n)),
      blocks_children_append =
        (\<lambda>pid cs n. (asUnit (behaviour n (BlocksChildrenAppend pid cs)), Suc n)),
      pages_create = (\<lambda>db props cs n. (asId (behaviour n (PagesCreate db props cs)), Suc n)),
      databases_query = (\<lambda>db q n. (asIds (behaviour n (DatabasesQuery db q)), Suc n))\<rparr>"

definition demoConfig :: config where
  "demoConfig = \<lparr>projectsDbId = ''projects-db'', featuresDbId = ''features-db''\<rparr>"

text \<open>A feature file with a title and nothing else, at \<open>path\<close>, with fingerprint \<open>h\<close>.\<close>

definition demoFeature :: "string \<Rightarrow> string \<Rightarrow> string \<Rightarrow> feature" where
  "demoFeature path name h =
     \<lparr>title = Some name, priority = None, complexity = None, estimatedSessions = None,
      description = None, subtasks = [], status = statusFromPath CHR ''/'' path,
      filePath = path, hash = h\<rparr>"

definition demoMapping :: "(string \<times> string) list \<Rightarrow> (string \<times> string) list \<Rightarrow> mapping" where
  "demoMapping ids hashes =
     \<lparr>projectPageId = Some ''proj'', lastSync = None, featurePageIds = ids, contentHashes = hashes\<rparr>"

definition demoProps :: "string \<Rightarrow> string \<Rightarrow> properties" where
  "demoProps name st = FeatureProperties (Some name) st (Some ''proj'') None None"

text \<open>A table that answers the n-th request with the n-th reply of a script, and succeeds after it.\<close>

definition replay :: "reply list \<Rightarrow> nat \<Rightarrow> call \<Rightarrow> reply" where
  "replay script n c = (if n < length script then script ! n else Succeeds)"

definition demoEnv :: env where
  "demoEnv = \<lparr>NOTION_TOKEN = Some ''secret'', NOTION_PROJECTS_DB_ID = Some ''projects-db'',
              NOTION_FEATURES_DB_ID = Some ''features-db''\<rparr>"

text \<open>The request that creates the page of \<open>demoFeature path name h\<close> under project \<open>proj\<close>.\<close>

definition demoCreate :: "string \<Rightarrow> string \<Rightarrow> string \<Rightarrow> call" where
  "demoCreate name st path =
     PagesCreate ''features-db'' (demoProps name st) [Divider, SourceRef path]"

text \<open>The requests of \<open>syncProject\<close> for a project named \<open>demo\<close> that is not found and is created.\<close>

definition demoProjectCalls :: "call list" where
  "demoProjectCalls =
     [DatabasesQuery ''projects-db'' (NameEquals ''demo''),
      PagesCreate ''projects-db'' (ProjectProperties ''demo'') [Divider, KanbanInstructions ''demo'']]"




subsection \<open>Vocabulary of the properties\<close>









text \<open>
  What a completed run has left in the mapping file: the id of the project page and the
  table of page ids, read from the loaded value.
\<close>

fun membersOf :: "json \<Rightarrow> (nat list \<times> json) list" where
  "membersOf (JObject ms) = ms"
| "membersOf v = []"

fun tableOf :: "json option \<Rightarrow> (string \<times> string) list" where
  "tableOf (Some (JObject ms)) = (case asEntries ms of None \<Rightarrow> [] | Some t \<Rightarrow> t)"
| "tableOf v = []"

definition storedProject :: "json \<Rightarrow> string option" where
  "storedProject v = asText (readMember (membersOf v) ''projectPageId'')"

definition storedPages :: "json \<Rightarrow> (string \<times> string) list" where
  "storedPages v = tableOf (readMember (membersOf v) ''featurePageIds'')"

text \<open>
  The requests a run sends when nothing has changed since the run that wrote the loaded
  value, in the order it sends them: the probe of the project page, the patch of its
  properties, and the probe of the page of each feature. \<open>succeedInTurn\<close>: each request of
  a list succeeds when the requests are sent one after the other from a remote state,
  every request in the state the one before it has left.
\<close>

definition requestsWhenUnchanged ::
  "'r notion \<Rightarrow> string \<Rightarrow> json \<Rightarrow> feature list \<Rightarrow> ('r \<Rightarrow> (error + unit) \<times> 'r) list" where
  "requestsWhenUnchanged N projectName loaded features =
     (case storedProject loaded of
        None \<Rightarrow> []
      | Some proj \<Rightarrow>
          pages_retrieve N proj
            # pages_update N proj (SetProperties (ProjectProperties projectName))
            # map (\<lambda>f. pages_retrieve N
                         (case map_of (storedPages loaded) (filePath f) of
                            None \<Rightarrow> []
                          | Some pid \<Rightarrow> pid))
                  features)"


text \<open>The entries of a table whose path is not among the scanned paths.\<close>

definition staleEntries :: "string set \<Rightarrow> (string \<times> string) list \<Rightarrow> (string \<times> string) list" where
  "staleEntries currentPaths entries = filter (\<lambda>(path, pageId). path \<notin> currentPaths) entries"

subsection \<open>Properties of the status assignment\<close>

lemma parseFeatureFile_status:
  "status (parseFeatureFile sep generateHash match content path) = statusFromPath sep path"
  by (simp add: parseFeatureFile_def)

lemma statusFromPath_cases:
  "statusFromPath sep p =
     (if ''backlog'' \<in> set (split_sep sep p) then ''Backlog''
      else if ''planned'' \<in> set (split_sep sep p) then ''Planned''
      else if ''in-progress'' \<in> set (split_sep sep p) then ''In Progress''
      else if ''completed'' \<in> set (split_sep sep p) then ''Completed''
      else ''Backlog'')"
  by (simp add: statusFromPath_def statusFolders_def)

text \<open>
  C6, as the script has it. The status is always one of Backlog, Planned, In Progress,
  Completed; a path with a part \<open>planned\<close> and no part \<open>backlog\<close> gets Planned; a path none
  of whose parts is a recognised folder gets Backlog.
\<close>

theorem C6_status_closed_set:
  "statusFromPath sep p \<in> {''Backlog'', ''Planned'', ''In Progress'', ''Completed''}
   \<and> (''planned'' \<in> set (split_sep sep p) \<and> ''backlog'' \<notin> set (split_sep sep p)
        \<longrightarrow> statusFromPath sep p = ''Planned'')
   \<and> ((\<forall>folder \<in> fst ` set statusFolders. folder \<notin> set (split_sep sep p))
        \<longrightarrow> statusFromPath sep p = ''Backlog'')"
  by (simp add: statusFromPath_cases statusFolders_def)

theorem C6_status_closed_set_witness:
  "statusFromPath CHR ''/'' ''roadmap/planned/001.md'' = ''Planned''
   \<and> statusFromPath CHR ''/'' ''roadmap/ideas/001.md'' = ''Backlog''"
  using C6_status_closed_set [of "CHR ''/''" "''roadmap/planned/001.md''"]
        C6_status_closed_set [of "CHR ''/''" "''roadmap/ideas/001.md''"]
  by (simp add: statusFolders_def)

text \<open>
  C6 as the specification words it fails: a file directly under a \<open>planned\<close> folder that
  itself lies under a \<open>backlog\<close> folder gets Backlog.
\<close>

theorem C6_planned_counterexample:
  "''planned'' \<in> set (split_sep CHR ''/'' ''roadmap/backlog/planned/x.md'')
   \<and> statusFromPath CHR ''/'' ''roadmap/backlog/planned/x.md'' \<noteq> ''Planned''"
  by (simp add: statusFromPath_cases)

text \<open>
  C9. When recognised folder names occur among the parts of the path, the status is that
  of the first of them in the table order backlog, planned, in-progress, completed,
  wherever in the path it stands: \<open>roadmap/completed/backlog/x.md\<close> and
  \<open>roadmap/backlog/completed/x.md\<close> both get Backlog.
\<close>

theorem C9_first_in_table_order:
  "(filter (\<lambda>(folder, status). folder \<in> set (split_sep sep p)) statusFolders \<noteq> []
      \<longrightarrow> statusFromPath sep p =
            snd (hd (filter (\<lambda>(folder, status). folder \<in> set (split_sep sep p)) statusFolders)))
   \<and> statusFromPath CHR ''/'' ''roadmap/completed/backlog/x.md'' = ''Backlog''
   \<and> statusFromPath CHR ''/'' ''roadmap/backlog/completed/x.md'' = ''Backlog''"
  by (simp add: statusFromPath_cases statusFolders_def)

theorem C9_first_in_table_order_witness:
  "filter (\<lambda>(folder, status). folder \<in> set (split_sep CHR ''/'' ''roadmap/completed/planned/x.md''))
      statusFolders = [(''planned'', ''Planned''), (''completed'', ''Completed'')]
   \<and> statusFromPath CHR ''/'' ''roadmap/completed/planned/x.md'' = ''Planned''"
  using C9_first_in_table_order [of "CHR ''/''" "''roadmap/completed/planned/x.md''"]
  by (simp add: statusFolders_def)

subsection \<open>Requests and the log\<close>

lemma request_log: "snd (snd (request method c w)) = snd w @ [c]"
  by (simp add: request_def split: prod.splits)

subsection \<open>The cleanup sweep\<close>

lemma cleanupLoop_effect:
  "cleanupLoop N P es m n w = ((m', n'), w') \<Longrightarrow>
     snd w' = snd w @ map (\<lambda>(path, pageId). PagesUpdate pageId SetArchived) (staleEntries P es)
   \<and> featurePageIds m' = filter (\<lambda>(k, v). k \<notin> fst ` set (staleEntries P es)) (featurePageIds m)
   \<and> contentHashes m' = filter (\<lambda>(k, v). k \<notin> fst ` set (staleEntries P es)) (contentHashes m)
   \<and> projectPageId m' = projectPageId m \<and> lastSync m' = lastSync m"
proof (induction es arbitrary: m n w)
  case Nil
  then show ?case by (simp add: staleEntries_def)
next
  case (Cons e es)
  obtain path pageId where e: "e = (path, pageId)" by (cases e)
  show ?case
  proof (cases "path \<in> P")
    case True
    with Cons e show ?thesis by (simp add: staleEntries_def)
  next
    case False
    let ?m1 = "m\<lparr>featurePageIds := AList.delete path (featurePageIds m),
                    contentHashes := AList.delete path (contentHashes m)\<rparr>"
    let ?rq = "request (pages_update N pageId SetArchived) (PagesUpdate pageId SetArchived) w"
    obtain res w1 where rq: "?rq = (res, w1)" by (cases ?rq)
    have log1: "snd w1 = snd w @ [PagesUpdate pageId SetArchived]"
      using request_log [of "pages_update N pageId SetArchived" "PagesUpdate pageId SetArchived" w] rq
      by simp
    obtain n1 where rest: "cleanupLoop N P es ?m1 n1 w1 = ((m', n'), w')"
      using Cons.prems False e rq by (cases res) auto
    from Cons.IH [OF rest] log1 False e
    show ?thesis
      by (auto simp: staleEntries_def AList.delete_eq intro!: filter_cong)
  qed
qed

lemma count_list_distinct: "distinct xs \<Longrightarrow> x \<in> set xs \<Longrightarrow> count_list xs x = 1"
  by (induction xs) auto

lemma distinct_stale: "distinct (map fst es) \<Longrightarrow> distinct (map fst (staleEntries P es))"
  by (simp add: staleEntries_def distinct_map_filter)

lemma map_of_filter_out: "k \<in> S \<Longrightarrow> map_of (filter (\<lambda>(k, v). k \<notin> S) xs) k = None"
  by (induction xs) auto

text \<open>
  C3. Whatever the client answers, the sweep sends one archive request for each entry of
  \<open>featurePageIds\<close> whose path was not scanned, against the page id of that entry, and
  nothing else; a path with such an entry occurs once among them, and afterwards neither
  table has an entry for it.
\<close>

theorem C3_cleanup_archives_once_and_forgets:
  assumes "distinct (map fst (featurePageIds mapping))"
    and "cleanupDeletedFeatures N currentFeatures pp mapping w = ((mapping', archived), w')"
  shows "snd w' = snd w @ map (\<lambda>(path, pageId). PagesUpdate pageId SetArchived)
                        (staleEntries (set (map filePath currentFeatures)) (featurePageIds mapping))
    \<and> (\<forall>path pageId.
          map_of (featurePageIds mapping) path = Some pageId
          \<and> path \<notin> set (map filePath currentFeatures) \<longrightarrow>
            (path, pageId) \<in> set (staleEntries (set (map filePath currentFeatures)) (featurePageIds mapping))
          \<and> count_list (map fst (staleEntries (set (map filePath currentFeatures)) (featurePageIds mapping))) path = 1
          \<and> map_of (featurePageIds mapping') path = None
          \<and> map_of (contentHashes mapping') path = None)"
proof -
  let ?P = "set (map filePath currentFeatures)"
  let ?stale = "staleEntries ?P (featurePageIds mapping)"
  from assms(2) have loop: "cleanupLoop N ?P (featurePageIds mapping) mapping 0 w = ((mapping', archived), w')"
    by (simp add: cleanupDeletedFeatures_def)
  note eff = cleanupLoop_effect [OF loop]
  have per_key: "(path, pageId) \<in> set ?stale \<and> count_list (map fst ?stale) path = 1
      \<and> map_of (featurePageIds mapping') path = None \<and> map_of (contentHashes mapping') path = None"
    if look: "map_of (featurePageIds mapping) path = Some pageId" and gone: "path \<notin> ?P"
    for path pageId
  proof -
    from look have mem: "(path, pageId) \<in> set (featurePageIds mapping)" by (rule map_of_SomeD)
    with gone have st: "(path, pageId) \<in> set ?stale" by (simp add: staleEntries_def)
    then have key: "path \<in> fst ` set ?stale" by force
    then have "path \<in> set (map fst ?stale)" by simp
    with distinct_stale [OF assms(1)] have one: "count_list (map fst ?stale) path = 1"
      by (rule count_list_distinct)
    have "map_of (featurePageIds mapping') path = None"
      using eff map_of_filter_out [OF key] by simp
    moreover have "map_of (contentHashes mapping') path = None"
      using eff map_of_filter_out [OF key] by simp
    ultimately show ?thesis using st one by simp
  qed
  from eff per_key show ?thesis by blast
qed

theorem C3_cleanup_archives_once_and_forgets_witness:
  "cleanupDeletedFeatures
      (answering (\<lambda>n c. if c = PagesUpdate ''pa'' SetArchived then Fails else Succeeds))
      [demoFeature ''roadmap/b.md'' ''B'' ''h2''] (Some ''proj'')
      (demoMapping [(''roadmap/a.md'', ''pa''), (''roadmap/b.md'', ''pb''), (''roadmap/c.md'', ''pc'')]
                   [(''roadmap/a.md'', ''h1''), (''roadmap/b.md'', ''h2''), (''roadmap/c.md'', ''h3'')])
      (0, [])
    = ((demoMapping [(''roadmap/b.md'', ''pb'')] [(''roadmap/b.md'', ''h2'')], 1),
       (2, [PagesUpdate ''pa'' SetArchived, PagesUpdate ''pc'' SetArchived]))
   \<and> count_list (map fst (staleEntries {''roadmap/b.md''}
        [(''roadmap/a.md'', ''pa''), (''roadmap/b.md'', ''pb''), (''roadmap/c.md'', ''pc'')])) ''roadmap/a.md'' = 1"
proof -
  let ?N = "answering (\<lambda>n c. if c = PagesUpdate ''pa'' SetArchived then Fails else Succeeds)"
  let ?m = "demoMapping [(''roadmap/a.md'', ''pa''), (''roadmap/b.md'', ''pb''), (''roadmap/c.md'', ''pc'')]
                   [(''roadmap/a.md'', ''h1''), (''roadmap/b.md'', ''h2''), (''roadmap/c.md'', ''h3'')]"
  have d: "distinct (map fst (featurePageIds ?m))" by (simp add: demoMapping_def)
  have run: "cleanupDeletedFeatures ?N [demoFeature ''roadmap/b.md'' ''B'' ''h2''] (Some ''proj'') ?m (0, [])
    = ((demoMapping [(''roadmap/b.md'', ''pb'')] [(''roadmap/b.md'', ''h2'')], 1),
       (2, [PagesUpdate ''pa'' SetArchived, PagesUpdate ''pc'' SetArchived]))"
    by (simp add: cleanupDeletedFeatures_def demoFeature_def demoMapping_def answering_def
          request_def asUnit_def)
  from C3_cleanup_archives_once_and_forgets [OF d run] run
  show ?thesis by (simp add: demoMapping_def demoFeature_def)
qed

subsection \<open>The decision for one feature\<close>



lemma syncFeature_failed_probe:
  assumes "map_of (featurePageIds m) (filePath f) = Some pid" and "pid \<noteq> []"
    and "map_of (contentHashes m) (filePath f) = Some (hash f)"
    and "request (pages_retrieve N pid) (PagesRetrieve pid) w = (Inl e, w1)"
  shows "syncFeature N cfg f pp m w = updateOrCreate N cfg f pp (Some pid) w1"
  using assms by (simp add: syncFeature_def)

text \<open>
  C4 on the script. The first part of the claim holds: with a stored page id, an equal
  fingerprint and a probe that succeeds, \<open>syncFeature\<close> sends the probe and nothing
  else, and the action is \<open>unchanged\<close> (lemma \<open>syncFeature_unchanged\<close>). The
  second part does not. When the probe fails, the \<open>catch\<close> of line 348 is empty, though
  its comment reads "Page was deleted, recreate it": \<open>existingPageId\<close> still holds the
  stored id, and lines 428-460 update the page under that id before any page is created.
  Here the probe fails and every other request succeeds. The feature with a mapping entry
  is updated under its stored id, with four requests and the action \<open>updated\<close>; the same
  feature with no mapping entry is created, with one request. \<open>syncProject\<close>, on the
  same remote, does what the claim says: when its probe fails it forgets the stored id
  (line 487) and goes on as if there were none.
\<close>

theorem C4_failed_probe_keeps_stored_id:
  "syncFeature
      (answering (\<lambda>n c. case c of PagesRetrieve p \<Rightarrow> Fails
                          | PagesCreate d p cs \<Rightarrow> ReturnsId ''new''
                          | _ \<Rightarrow> Succeeds))
      demoConfig (demoFeature ''roadmap/planned/a.md'' ''A'' ''h1'') (Some ''proj'')
      (demoMapping [(''roadmap/planned/a.md'', ''pa'')] [(''roadmap/planned/a.md'', ''h1'')])
      (0, [])
    = (Inr (''pa'', updated),
       (4, [PagesRetrieve ''pa'',
            PagesUpdate ''pa'' (SetProperties (demoProps ''A'' ''Planned'')),
            BlocksChildrenList ''pa'',
            BlocksChildrenAppend ''pa'' [Divider, SourceRef ''roadmap/planned/a.md'']]))
   \<and> syncFeature
      (answering (\<lambda>n c. case c of PagesRetrieve p \<Rightarrow> Fails
                          | PagesCreate d p cs \<Rightarrow> ReturnsId ''new''
                          | _ \<Rightarrow> Succeeds))
      demoConfig (demoFeature ''roadmap/planned/a.md'' ''A'' ''h1'') (Some ''proj'')
      (demoMapping [] [])
      (0, [])
    = (Inr (''new'', created),
       (1, [PagesCreate ''features-db'' (demoProps ''A'' ''Planned'')
              [Divider, SourceRef ''roadmap/planned/a.md'']]))
   \<and> syncProject
      (answering (\<lambda>n c. case c of PagesRetrieve p \<Rightarrow> Fails
                          | PagesCreate d p cs \<Rightarrow> ReturnsId ''new''
                          | _ \<Rightarrow> Succeeds))
      demoConfig ''demo'' None 1 (demoMapping [] []) (0, [])
    = (Inr (''new'', created),
       (3, [PagesRetrieve ''proj'',
            DatabasesQuery ''projects-db'' (NameEquals ''demo''),
            PagesCreate ''projects-db'' (ProjectProperties ''demo'')
              [Divider, KanbanInstructions ''demo'']]))"
  by (simp add: syncFeature_def updateOrCreate_def updateExisting_def request_def
        syncProject_def createProject_def findProjectPage_def
        demoMapping_def demoFeature_def demoConfig_def demoProps_def answering_def
        asUnit_def asId_def asIds_def featureProperties_def featureChildren_def
        statusFromPath_cases)

text \<open>
  C5 on the script. \<open>findFeaturePage\<close> is defined and never called: for a feature with no
  mapping entry \<open>syncFeature\<close> sends \<open>pages.create\<close> at once. Here the Features database
  already holds a page with the feature's title and project, which \<open>findFeaturePage\<close>
  finds, and \<open>syncFeature\<close> creates a second page without any query.
\<close>

theorem C5_no_fallback_search:
  "findFeaturePage
      (answering (\<lambda>n c. case c of DatabasesQuery d q \<Rightarrow> ReturnsIds [''existing'']
                          | PagesCreate d p cs \<Rightarrow> ReturnsId ''duplicate''
                          | _ \<Rightarrow> Succeeds))
      demoConfig (Some ''A'') (Some ''proj'') (0, [])
    = (Some ''existing'',
       (1, [DatabasesQuery ''features-db'' (NameEqualsAndProjectContains (Some ''A'') (Some ''proj''))]))
   \<and> syncFeature
      (answering (\<lambda>n c. case c of DatabasesQuery d q \<Rightarrow> ReturnsIds [''existing'']
                          | PagesCreate d p cs \<Rightarrow> ReturnsId ''duplicate''
                          | _ \<Rightarrow> Succeeds))
      demoConfig (demoFeature ''roadmap/planned/a.md'' ''A'' ''h1'') (Some ''proj'')
      (demoMapping [] []) (0, [])
    = (Inr (''duplicate'', created),
       (1, [PagesCreate ''features-db'' (demoProps ''A'' ''Planned'')
              [Divider, SourceRef ''roadmap/planned/a.md'']]))"
  by (simp add: syncFeature_def updateOrCreate_def findFeaturePage_def request_def
        demoMapping_def demoFeature_def demoConfig_def demoProps_def answering_def
        asUnit_def asId_def asIds_def featureProperties_def featureChildren_def
        statusFromPath_cases)


subsection \<open>A JSON text reads back as the value it was written from\<close>

lemma hexValue_hexDigit: "d < 16 \<Longrightarrow> hexValue (hexDigit d) = Some d"
  by (auto simp: hexValue_def hexDigit_def Let_def)


lemma hex4_hex4text:
  assumes "n < 65536"
  shows "hex4 (hexDigit (n div 4096 mod 16)) (hexDigit (n div 256 mod 16))
              (hexDigit (n div 16 mod 16)) (hexDigit (n mod 16)) = Some n"
proof -
  have a: "n div 4096 mod 16 = n div 4096"
    using assms by (simp add: less_mult_imp_div_less)
  have "n div 256 div 16 = n div 4096" "n div 16 div 16 = n div 256"
    by (simp_all add: div_mult2_eq [symmetric])
  then have b: "n div 256 = n div 4096 * 16 + n div 256 mod 16"
    and c: "n div 16 = n div 256 * 16 + n div 16 mod 16"
    using div_mult_mod_eq [of "n div 256" 16] div_mult_mod_eq [of "n div 16" 16] by simp_all
  have "((n div 4096 mod 16 * 16 + n div 256 mod 16) * 16 + n div 16 mod 16) * 16 + n mod 16
          = ((n div 4096 * 16 + n div 256 mod 16) * 16 + n div 16 mod 16) * 16 + n mod 16"
    by (simp only: a)
  also have "\<dots> = (n div 256 * 16 + n div 16 mod 16) * 16 + n mod 16"
    by (simp only: b [symmetric])
  also have "\<dots> = n div 16 * 16 + n mod 16"
    by (simp only: c [symmetric])
  also have "\<dots> = n"
    by simp
  finally have eq: "((n div 4096 mod 16 * 16 + n div 256 mod 16) * 16 + n div 16 mod 16) * 16 + n mod 16 = n" .
  have "hex4 (hexDigit (n div 4096 mod 16)) (hexDigit (n div 256 mod 16))
              (hexDigit (n div 16 mod 16)) (hexDigit (n mod 16))
        = Some (((n div 4096 mod 16 * 16 + n div 256 mod 16) * 16 + n div 16 mod 16) * 16 + n mod 16)"
    unfolding hex4_def by (simp only: hexValue_hexDigit mod_less_divisor zero_less_numeral prod.case option.case)
  then show ?thesis
    by (simp only: eq)
qed

lemma char_of_eq_code: "(n::nat) < 256 \<Longrightarrow> (char_of n = c) = (n = of_char c)"
  by (auto simp: char_of_eq_iff take_bit_eq_mod)

lemma parseChars_quoteUnit:
  assumes "n < 65536"
  shows "parseChars (quoteUnit n @ t) = consUnit n (parseChars t)"
proof -
  consider "n = 34" | "n = 92" | "n = 8" | "n = 9" | "n = 10" | "n = 12" | "n = 13"
    | "n \<notin> {34, 92, 8, 9, 10, 12, 13}" "n < 32 \<or> 256 \<le> n"
    | "n \<notin> {34, 92, 8, 9, 10, 12, 13}" "32 \<le> n" "n < 256"
    by fastforce
  then show ?thesis
  proof cases
    case 8
    then show ?thesis
      using hex4_hex4text [OF assms]
      by (simp add: quoteUnit_def hex4text_def)
  next
    case 9
    then show ?thesis
      by (simp add: quoteUnit_def char_of_eq_code)
  qed (simp_all add: quoteUnit_def simpleEscape_def)
qed

lemma parseChars_quoted:
  "\<forall>n \<in> set s. n < 65536 \<Longrightarrow>
     parseChars (concat (map quoteUnit s) @ CHR 0x22 # rest) = Some (s, rest)"
  by (induction s) (simp_all add: parseChars_quoteUnit consUnit_def)

lemma skipWs_ws: "list_all isWs ws \<Longrightarrow> skipWs (ws @ s) = skipWs s"
  by (induction ws) (simp_all add: skipWs_def)

lemma isWs_newline: "list_all isWs (newline l)"
  by (simp add: newline_def isWs_def list_all_iff)

lemma skipWs_nonws: "\<not> isWs c \<Longrightarrow> skipWs (c # s) = c # s"
  by (simp add: skipWs_def)

lemma parseValue_ws: "list_all isWs ws \<Longrightarrow> parseValue (ws @ s) = parseValue s"
  by (simp add: parseValue.simps [of "ws @ s"] parseValue.simps [of s] skipWs_ws)

lemma stringify_starts:
  "plain v \<Longrightarrow> \<exists>c t. stringify l v = c # t \<and> \<not> isWs c \<and> c \<noteq> CHR '']'' \<and> c \<noteq> CHR ''}''"
  by (cases v) (auto simp: isWs_def quoteJSONString_def)

lemma parseValue_string:
  "list_all (\<lambda>n. n < 65536) s \<Longrightarrow> parseValue (quoteJSONString s @ rest) = Some (JString s, rest)"
  by (subst parseValue.simps)
     (simp add: quoteJSONString_def skipWs_nonws isWs_def parseChars_quoted list_all_iff)

lemma parseValue_atoms:
  "parseValue (''null'' @ rest) = Some (JNull, rest)"
  "parseValue (''true'' @ rest) = Some (JBool True, rest)"
  "parseValue (''false'' @ rest) = Some (JBool False, rest)"
  "parseValue (''{}'' @ rest) = Some (JObject [], rest)"
  "parseValue (''[]'' @ rest) = Some (JArray [], rest)"
  by (subst parseValue.simps, simp add: skipWs_nonws isWs_def parseAtom_def)+

lemma stringify_nonempty: "plain v \<Longrightarrow> 0 < length (stringify l v)"
  using stringify_starts [of v l] by auto

lemma parseElements_step:
  assumes "parseValue (stringify level v @ tail) = Some (v, tail)" "plain v" "list_all isWs ws"
  shows "parseElements (ws @ stringify level v @ tail) acc =
           (case skipWs tail of
              [] \<Rightarrow> None
            | d # r' \<Rightarrow>
                if d = CHR '','' then parseElements r' (acc @ [v])
                else if d = CHR '']'' then Some (acc @ [v], r')
                else None)"
  using assms stringify_nonempty [of v level]
  by (subst parseElements.simps) (simp add: parseValue_ws)

lemma parseMembers_step:
  assumes "parseValue (stringify level v @ tail) = Some (v, tail)" "plain v" "list_all isWs ws"
    and "list_all (\<lambda>n. n < 65536) k"
  shows "parseMembers (ws @ quoteJSONString k @ '': '' @ stringify level v @ tail) acc =
           (case skipWs tail of
              [] \<Rightarrow> None
            | d # r4 \<Rightarrow>
                if d = CHR '','' then parseMembers r4 (AList.update k v acc)
                else if d = CHR ''}'' then Some (AList.update k v acc, r4)
                else None)"
proof -
  have ws: "list_all isWs '' ''" by (simp add: isWs_def)
  have pv: "parseValue (CHR '' '' # stringify level v @ tail) = Some (v, tail)"
    using parseValue_ws [OF ws, of "stringify level v @ tail"] assms(1) by simp
  show ?thesis
    using assms(2-4) stringify_nonempty [of v level] pv
    by (subst parseMembers.simps)
       (simp add: skipWs_ws quoteJSONString_def skipWs_nonws isWs_def parseChars_quoted list_all_iff)
qed

lemma update_fresh: "k \<notin> fst ` set acc \<Longrightarrow> AList.update k v acc = acc @ [(k, v)]"
  by (induction acc) auto

lemma stringifyElements_starts:
  "vs \<noteq> [] \<Longrightarrow> list_all plain vs \<Longrightarrow>
     \<exists>c t. stringifyElements l vs = c # t \<and> \<not> isWs c \<and> c \<noteq> CHR '']''"
  using stringify_starts by (cases vs) fastforce+

lemma stringifyMembers_starts:
  "ms \<noteq> [] \<Longrightarrow> \<exists>t. stringifyMembers l ms = CHR 0x22 # t"
  by (cases ms) (auto simp: quoteJSONString_def)

lemma skipWs_close: "skipWs (newline l @ c # rest) = skipWs (c # rest)"
  by (simp add: skipWs_ws isWs_newline)

lemma roundtrip_aux:
  "plain v \<longrightarrow> (\<forall>rest. parseValue (stringify level v @ rest) = Some (v, rest))"
  "vs \<noteq> [] \<and> list_all plain vs \<longrightarrow>
     (\<forall>ws l' rest acc. list_all isWs ws \<longrightarrow>
        parseElements (ws @ stringifyElements level vs @ newline l' @ CHR '']'' # rest) acc
          = Some (acc @ vs, rest))"
  "ms \<noteq> [] \<and> distinct (map fst ms)
     \<and> list_all (\<lambda>(k, v). list_all (\<lambda>n. n < 65536) k \<and> plain v) ms \<longrightarrow>
     (\<forall>ws l' rest acc. list_all isWs ws \<and> fst ` set acc \<inter> fst ` set ms = {} \<longrightarrow>
        parseMembers (ws @ stringifyMembers level ms @ newline l' @ CHR ''}'' # rest) acc
          = Some (acc @ ms, rest))"
proof (induction level v and level vs and level ms
        rule: stringify_stringifyElements_stringifyMembers.induct)
  case (1 level)
  show ?case using parseValue_atoms(1) by simp
next
  case (2 level b)
  show ?case using parseValue_atoms(2,3) by simp
next
  case (3 level lexeme)
  show ?case by simp
next
  case (4 level s)
  show ?case using parseValue_string by simp
next
  case (5 level vs)
  show ?case
  proof (cases "vs = []")
    case True
    then show ?thesis using parseValue_atoms(5) by simp
  next
    case False
    show ?thesis
    proof (intro impI allI)
      fix rest
      assume pl: "plain (JArray vs)"
      then have all: "list_all plain vs" by simp
      from stringifyElements_starts [OF False all, of "Suc level"]
      obtain c t where st: "stringifyElements (Suc level) vs = c # t" "\<not> isWs c" "c \<noteq> CHR '']''"
        by blast
      have el: "parseElements (newline (Suc level) @ stringifyElements (Suc level) vs
                  @ newline level @ CHR '']'' # rest) [] = Some (vs, rest)"
        using 5 False all isWs_newline [of "Suc level"] by simp
      show "parseValue (stringify level (JArray vs) @ rest) = Some (JArray vs, rest)"
        using False st el
        by (subst parseValue.simps)
           (simp add: skipWs_nonws isWs_def skipWs_ws isWs_newline)
    qed
  qed
next
  case (6 level ms)
  show ?case
  proof (cases "ms = []")
    case True
    then show ?thesis using parseValue_atoms(4) by simp
  next
    case False
    show ?thesis
    proof (intro impI allI)
      fix rest
      assume pl: "plain (JObject ms)"
      from stringifyMembers_starts [OF False, of "Suc level"]
      obtain t where st: "stringifyMembers (Suc level) ms = CHR 0x22 # t"
        by blast
      have el: "parseMembers (newline (Suc level) @ stringifyMembers (Suc level) ms
                  @ newline level @ CHR ''}'' # rest) [] = Some (ms, rest)"
        using 6 False pl isWs_newline [of "Suc level"] by simp
      show "parseValue (stringify level (JObject ms) @ rest) = Some (JObject ms, rest)"
        using False st el
        by (subst parseValue.simps)
           (simp add: skipWs_nonws isWs_def skipWs_ws isWs_newline)
    qed
  qed
next
  case (7 level)
  show ?case by simp
next
  case (8 level v vs)
  show ?case
  proof (intro impI allI)
    fix ws l' rest acc
    assume a: "v # vs \<noteq> [] \<and> list_all plain (v # vs)" and w: "list_all isWs ws"
    then have pv: "plain v" and pvs: "list_all plain vs" by simp_all
    let ?tail = "(if vs = [] then [] else '','' @ newline level @ stringifyElements level vs)
                   @ newline l' @ CHR '']'' # rest"
    have v: "parseValue (stringify level v @ ?tail) = Some (v, ?tail)"
      using 8(1) pv by blast
    have step: "parseElements (ws @ stringify level v @ ?tail) acc =
           (case skipWs ?tail of
              [] \<Rightarrow> None
            | d # r' \<Rightarrow>
                if d = CHR '','' then parseElements r' (acc @ [v])
                else if d = CHR '']'' then Some (acc @ [v], r')
                else None)"
      by (rule parseElements_step [OF v pv w])
    show "parseElements (ws @ stringifyElements level (v # vs) @ newline l' @ CHR '']'' # rest) acc
            = Some (acc @ v # vs, rest)"
    proof (cases "vs = []")
      case True
      then show ?thesis
        using step by (simp add: skipWs_close skipWs_nonws isWs_def)
    next
      case False
      have "parseElements (newline level @ stringifyElements level vs @ newline l' @ CHR '']'' # rest)
              (acc @ [v]) = Some ((acc @ [v]) @ vs, rest)"
        using 8(2) False pvs isWs_newline [of level] by blast
      then show ?thesis
        using step False by (simp add: skipWs_nonws isWs_def)
    qed
  qed
next
  case (9 level)
  show ?case by simp
next
  case (10 level k v ms)
  show ?case
  proof (intro impI allI)
    fix ws l' rest and acc :: "(nat list \<times> json) list"
    assume a: "(k, v) # ms \<noteq> [] \<and> distinct (map fst ((k, v) # ms))
        \<and> list_all (\<lambda>(k, v). list_all (\<lambda>n. n < 65536) k \<and> plain v) ((k, v) # ms)"
      and w: "list_all isWs ws \<and> fst ` set acc \<inter> fst ` set ((k, v) # ms) = {}"
    then have pv: "plain v" and pk: "list_all (\<lambda>n. n < 65536) k"
      and pms: "list_all (\<lambda>(k, v). list_all (\<lambda>n. n < 65536) k \<and> plain v) ms"
      and dms: "distinct (map fst ms)" and knew: "k \<notin> fst ` set ms"
      and kacc: "k \<notin> fst ` set acc" and disj: "fst ` set acc \<inter> fst ` set ms = {}"
      by auto
    let ?tail = "(if ms = [] then [] else '','' @ newline level @ stringifyMembers level ms)
                   @ newline l' @ CHR ''}'' # rest"
    have v: "parseValue (stringify level v @ ?tail) = Some (v, ?tail)"
      using 10(1) pv by blast
    have step: "parseMembers (ws @ quoteJSONString k @ '': '' @ stringify level v @ ?tail) acc =
           (case skipWs ?tail of
              [] \<Rightarrow> None
            | d # r4 \<Rightarrow>
                if d = CHR '','' then parseMembers r4 (AList.update k v acc)
                else if d = CHR ''}'' then Some (AList.update k v acc, r4)
                else None)"
      using parseMembers_step [OF v pv _ pk] w by blast
    show "parseMembers (ws @ stringifyMembers level ((k, v) # ms) @ newline l' @ CHR ''}'' # rest) acc
            = Some (acc @ (k, v) # ms, rest)"
    proof (cases "ms = []")
      case True
      then show ?thesis
        using step update_fresh [OF kacc, of v]
        by (simp add: skipWs_close skipWs_nonws isWs_def)
    next
      case False
      have fresh: "fst ` set (acc @ [(k, v)]) \<inter> fst ` set ms = {}"
        using disj knew by auto
      have "parseMembers (newline level @ stringifyMembers level ms @ newline l' @ CHR ''}'' # rest)
              (acc @ [(k, v)]) = Some ((acc @ [(k, v)]) @ ms, rest)"
        using 10(2) False pms dms fresh isWs_newline [of level] by blast
      then show ?thesis
        using step False update_fresh [OF kacc, of v] by (simp add: skipWs_nonws isWs_def)
    qed
  qed
qed

lemma JSON_roundtrip:
  assumes "plain v"
  shows "JSON_parse (JSON_stringify v) = Some v"
proof -
  have "parseValue (stringify 0 v @ []) = Some (v, [])"
    using roundtrip_aux(1) [of v 0] assms by blast
  then show ?thesis
    by (simp add: JSON_parse_def JSON_stringify_def skipWs_def)
qed


















subsection \<open>The mapping file\<close>

lemma latin1_js: "latin1 (js s) = Some s"
  by (simp add: latin1_def js_def list_all_iff map_idI)

lemma js_eq_iff: "js a = js b \<longleftrightarrow> a = b"
  by (simp add: js_def inj_map_eq_map inj_of_char)

lemma distinct_map_js: "distinct ks \<Longrightarrow> distinct (map js ks)"
  by (simp add: distinct_map inj_on_def js_eq_iff)

lemma js_units: "list_all (\<lambda>n. n < 65536) (js s)"
proof -
  have "(of_char c :: nat) < 65536" for c
    using nat_of_char_less_256 [of c] by linarith
  then show ?thesis by (simp add: js_def list_all_iff)
qed

lemma plain_optJson: "plain (optJson v)"
  by (cases v) (simp_all add: optJson_def js_units)

lemma js_unit_bound: "n \<in> set (js s) \<Longrightarrow> n < 65536"
  using js_units [of s] by (simp add: list_all_iff)

lemma plain_tableJson:
  assumes "distinct (map fst t)"
  shows "plain (tableJson t)"
proof -
  have keys: "map fst (map (\<lambda>(k, v). (js k, JString (js v))) t) = map js (map fst t)"
    by (induction t) auto
  have "distinct (map js (map fst t))"
    using assms by (rule distinct_map_js)
  then have d: "distinct (map fst (map (\<lambda>(k, v). (js k, JString (js v))) t))"
    by (simp only: keys)
  have "list_all (\<lambda>(k, v). list_all (\<lambda>n. n < 65536) k \<and> plain v)
          (map (\<lambda>(k, v). (js k, JString (js v))) t)"
    by (induction t) (auto simp: js_units)
  with d show ?thesis
    unfolding tableJson_def by simp
qed

lemma field_names_distinct:
  "distinct [js ''projectPageId'', js ''lastSync'', js ''featurePageIds'', js ''contentHashes'']"
  by (simp add: js_def)

lemma plain_mappingToJson:
  "distinct (map fst (featurePageIds m)) \<Longrightarrow> distinct (map fst (contentHashes m))
     \<Longrightarrow> plain (mappingToJson m)"
  using field_names_distinct
  by (simp add: mappingToJson_def plain_optJson plain_tableJson js_units)

lemma asOpt_optJson: "asOpt (optJson v) = Some v"
  by (cases v) (simp_all add: optJson_def latin1_js)

lemma asEntries_table: "asEntries (map (\<lambda>(k, v). (js k, JString (js v))) t) = Some t"
  by (induction t) (auto simp: latin1_js)

lemma asTable_tableJson: "distinct (map fst t) \<Longrightarrow> asTable (tableJson t) = Some t"
  by (simp add: tableJson_def asEntries_table)

lemma asMapping_mappingToJson:
  "distinct (map fst (featurePageIds m)) \<Longrightarrow> distinct (map fst (contentHashes m))
     \<Longrightarrow> asMapping (mappingToJson m) = Some m"
  by (simp add: mappingToJson_def asOpt_optJson asTable_tableJson)

lemma load_save: "plain v \<Longrightarrow> loadMapping (saveMapping v fs) = v"
  by (simp add: loadMapping_def saveMapping_def JSON_roundtrip)

lemma asMapping_distinct:
  "asMapping v = Some m \<Longrightarrow> distinct (map fst (featurePageIds m)) \<and> distinct (map fst (contentHashes m))"
  by (auto elim!: asMapping.elims asTable.elims split: if_splits option.splits)

lemma asMapping_fresh:
  "asMapping freshState = Some \<lparr>projectPageId = None, lastSync = None, featurePageIds = [], contentHashes = []\<rparr>"
  by (simp add: freshState_def)

lemma load_empty: "loadMapping Map.empty = freshState"
  by (simp add: loadMapping_def)

lemmas parse_defs = JSON_parse_def parseValue.simps parseElements.simps parseMembers.simps
  skipWs_def isWs_def parseAtom_def parseNumber_def parseInteger_def parseFraction_def
  parseExponent_def parseSign_def isDigit_def

text \<open>
  C7. A sync state is saved with \<open>saveMapping\<close> and loaded with \<open>loadMapping\<close>. When no
  key occurs twice in a table (the tables are JavaScript objects), what is loaded is the
  object that was saved, and it is the saved state: the project page id, the time stamp,
  the table of remote ids and the table of fingerprints are the saved ones.
\<close>

theorem C7_save_then_load:
  assumes "distinct (map fst (featurePageIds m))" and "distinct (map fst (contentHashes m))"
  shows "loadMapping (saveMapping (mappingToJson m) fs) = mappingToJson m
       \<and> asMapping (loadMapping (saveMapping (mappingToJson m) fs)) = Some m"
  using assms by (simp add: load_save plain_mappingToJson asMapping_mappingToJson)

theorem C7_save_then_load_witness:
  "asMapping (loadMapping (saveMapping
      (mappingToJson (demoMapping [(''roadmap/a.md'', ''pa''), (''roadmap/b.md'', ''pb'')]
                                  [(''roadmap/a.md'', ''h1''), (''roadmap/b.md'', ''h2'')]))
      Map.empty))
    = Some (demoMapping [(''roadmap/a.md'', ''pa''), (''roadmap/b.md'', ''pb'')]
                        [(''roadmap/a.md'', ''h1''), (''roadmap/b.md'', ''h2'')])"
proof -
  let ?m = "demoMapping [(''roadmap/a.md'', ''pa''), (''roadmap/b.md'', ''pb'')]
                        [(''roadmap/a.md'', ''h1''), (''roadmap/b.md'', ''h2'')]"
  have d1: "distinct (map fst (featurePageIds ?m))" by (simp add: demoMapping_def)
  have d2: "distinct (map fst (contentHashes ?m))" by (simp add: demoMapping_def)
  show ?thesis
    by (rule C7_save_then_load [OF d1 d2, THEN conjunct2])
qed

text \<open>
  C8, as the script has it. \<open>loadMapping\<close> has no way to throw: it is a function of the
  files with no error among its results. When the file cannot be read, or its content is
  not a JSON text, it returns the fresh state, whose project page id and time stamp are
  \<open>null\<close> and whose tables are empty. When the content is a JSON text it returns the
  value of that text, whatever it is.
\<close>

theorem C8_loadMapping_fails_soft:
  "(fs mappingFile = None \<longrightarrow> loadMapping fs = freshState)
   \<and> (\<forall>data. fs mappingFile = Some data \<and> JSON_parse data = None \<longrightarrow> loadMapping fs = freshState)
   \<and> (\<forall>data v. fs mappingFile = Some data \<and> JSON_parse data = Some v \<longrightarrow> loadMapping fs = v)
   \<and> asMapping freshState
        = Some \<lparr>projectPageId = None, lastSync = None, featurePageIds = [], contentHashes = []\<rparr>"
  by (simp add: loadMapping_def asMapping_fresh)

theorem C8_loadMapping_fails_soft_witness:
  "loadMapping Map.empty = freshState
   \<and> loadMapping (Map.empty(mappingFile \<mapsto> ''{broken'')) = freshState
   \<and> loadMapping (Map.empty(mappingFile \<mapsto> ''[1, null]'')) = JArray [JNumber ''1'', JNull]"
proof -
  have a: "JSON_parse ''{broken'' = None"
    by (simp add: parse_defs)
  have b: "JSON_parse ''[1, null]'' = Some (JArray [JNumber ''1'', JNull])"
    by (simp add: parse_defs)
  show ?thesis
    using C8_loadMapping_fails_soft [of Map.empty]
          C8_loadMapping_fails_soft [of "Map.empty(mappingFile \<mapsto> ''{broken'')"]
          C8_loadMapping_fails_soft [of "Map.empty(mappingFile \<mapsto> ''[1, null]'')"] a b
    by simp
qed

text \<open>
  C8 as the specification words it fails: the file content \<open>null\<close> is a JSON text, so
  \<open>loadMapping\<close> returns \<open>null\<close>, which is neither a sync state nor the fresh state.
\<close>

theorem C8_not_a_sync_state_counterexample:
  "loadMapping (Map.empty(mappingFile \<mapsto> ''null'')) = JNull
   \<and> asMapping JNull = None
   \<and> JNull \<noteq> freshState"
  by (simp add: loadMapping_def parse_defs freshState_def)

subsection \<open>The loaded object and the object that is saved\<close>

lemma allDigits_js: "allDigits (js s) = (s \<noteq> [] \<and> list_all isDigit s)"
  by (simp add: allDigits_def js_def isDigit_def list_all_iff)

lemma js_latin1: "list_all (\<lambda>n. n < 256) (js s)"
  by (simp add: js_def list_all_iff)













lemma update_same: "map_of al k = Some v \<Longrightarrow> AList.update k v al = al"
  by (rule update_triv)







subsection \<open>A whole run\<close>






lemmas demo_defs = demoEnv_def demoFeature_def demoMapping_def demoProps_def demoCreate_def
  demoProjectCalls_def demoConfig_def answering_def replay_def asUnit_def asId_def asIds_def











lemmas run_defs = syncToNotion_def runLoaded_def withoutPageIds_def withoutHashes_def
  reconcile_def syncProject_def createProject_def
  findProjectPage_def syncFeature_def updateOrCreate_def updateExisting_def
  cleanupDeletedFeatures_def request_def featureProperties_def featureChildren_def
  statusFromPath_cases roadmapDir_def

lemmas view_defs = viewMapping_def idMember_def readMember_def putMapping_def js_eq_iff
  js_latin1 allDigits_js isDigit_def canonicalInteger_def latin1_js optJson_def tableJson_def
  storedProject_def storedPages_def requestsWhenUnchanged_def


lemma children_nonempty: "featureChildren f \<noteq> []"
  by (simp add: featureChildren_def)

lemma runLoaded_failed:
  "runLoaded N cfg pn readme features now loaded fs w = Covered (SyncFailed e, fs', w') \<Longrightarrow> fs' = fs"
  by (auto simp: runLoaded_def withoutPageIds_def withoutHashes_def
           split: json.splits view.splits prod.splits sum.splits if_splits list.splits)

text \<open>
  C2, as the script has it, in terms of what the client answers. For a feature and a
  stored page id that is not empty: when the patch of the properties is rejected, or the
  listing of the blocks, or the append of the new blocks, the feature is handled from the
  state the rejected request left as a feature with no page id is
  (parts 1 to 3). A feature with no page id is created: when \<open>pages.create\<close> is rejected
  the exception leaves \<open>syncFeature\<close>, and when it succeeds the result is the new id with
  the action \<open>created\<close> (parts 4 and 5). \<open>syncFeature\<close> takes these paths for a path
  with no entry, and for a path whose stored fingerprint differs or whose stored id is
  empty (parts 6 and 7). In the
  loop of lines 646-661, a feature that returned is recorded and the loop goes on with
  the features after it; an exception ends the loop there, with nothing sent for the
  features after it (parts 8 and 9). When the loop throws, the run ends in the \<open>catch\<close>
  of line 690 with the files as they were (part 10); so it does when the create of the
  first feature is rejected (part 11); and no run that ends there has written the
  mapping file (part 12). \<open>syncFeature\<close> also takes the path of a stored page id
  after a probe that failed (part 13), and an empty page id counts as none (part 14).
\<close>

theorem C2_update_failure_recovered_create_failure_aborts:
  "(\<forall>pid e w1. pid \<noteq> []
        \<and> request (pages_update N pid (SetProperties (featureProperties f pp)))
            (PagesUpdate pid (SetProperties (featureProperties f pp))) w = (Inl e, w1) \<longrightarrow>
      updateOrCreate N cfg f pp (Some pid) w = updateOrCreate N cfg f pp None w1)
   \<and> (\<forall>pid u w1 e w2. pid \<noteq> []
        \<and> request (pages_update N pid (SetProperties (featureProperties f pp)))
            (PagesUpdate pid (SetProperties (featureProperties f pp))) w = (Inr u, w1)
        \<and> request (blocks_children_list N pid) (BlocksChildrenList pid) w1 = (Inl e, w2) \<longrightarrow>
      updateOrCreate N cfg f pp (Some pid) w = updateOrCreate N cfg f pp None w2)
   \<and> (\<forall>pid u w1 blocks w2 e w3. pid \<noteq> []
        \<and> request (pages_update N pid (SetProperties (featureProperties f pp)))
            (PagesUpdate pid (SetProperties (featureProperties f pp))) w = (Inr u, w1)
        \<and> request (blocks_children_list N pid) (BlocksChildrenList pid) w1 = (Inr blocks, w2)
        \<and> request (blocks_children_append N pid (featureChildren f))
            (BlocksChildrenAppend pid (featureChildren f)) (deleteBlocks N blocks w2) = (Inl e, w3) \<longrightarrow>
      updateOrCreate N cfg f pp (Some pid) w = updateOrCreate N cfg f pp None w3)
   \<and> (\<forall>e w1.
        request (pages_create N (featuresDbId cfg) (featureProperties f pp) (featureChildren f))
          (PagesCreate (featuresDbId cfg) (featureProperties f pp) (featureChildren f)) w = (Inl e, w1) \<longrightarrow>
      updateOrCreate N cfg f pp None w = (Inl e, w1))
   \<and> (\<forall>newId w1.
        request (pages_create N (featuresDbId cfg) (featureProperties f pp) (featureChildren f))
          (PagesCreate (featuresDbId cfg) (featureProperties f pp) (featureChildren f)) w = (Inr newId, w1) \<longrightarrow>
      updateOrCreate N cfg f pp None w = (Inr (newId, created), w1))
   \<and> (map_of (featurePageIds m) (filePath f) = None \<longrightarrow>
      syncFeature N cfg f pp m w = updateOrCreate N cfg f pp None w)
   \<and> (\<forall>pid. map_of (featurePageIds m) (filePath f) = Some pid
        \<and> (pid = [] \<or> map_of (contentHashes m) (filePath f) \<noteq> Some (hash f)) \<longrightarrow>
      syncFeature N cfg f pp m w = updateOrCreate N cfg f pp (Some pid) w)
   \<and> (\<forall>pid act w1. syncFeature N cfg f (projectPageId m) m w = (Inr (pid, act), w1) \<longrightarrow>
      syncFeatures N cfg (f # rest) m c w
        = syncFeatures N cfg rest
            (m\<lparr>featurePageIds := AList.update (filePath f) pid (featurePageIds m),
               contentHashes := AList.update (filePath f) (hash f) (contentHashes m)\<rparr>)
            (count act c) w1)
   \<and> (\<forall>e w1. syncFeature N cfg f (projectPageId m) m w = (Inl e, w1) \<longrightarrow>
      syncFeatures N cfg (f # rest) m c w = (Inl e, w1))
   \<and> (\<forall>pdb fdb members m0 proj pa w1 e w2.
        truthy (NOTION_TOKEN env) \<and> NOTION_PROJECTS_DB_ID env = Some pdb \<and> pdb \<noteq> []
        \<and> NOTION_FEATURES_DB_ID env = Some fdb \<and> fdb \<noteq> []
        \<and> list_all (\<lambda>f. take (length roadmapDir) (filePath f) = roadmapDir) features
        \<and> loadMapping fs = JObject members \<and> viewMapping members = Usable m0
        \<and> syncProject N \<lparr>projectsDbId = pdb, featuresDbId = fdb\<rparr> pn readme (length features) m0 w
              = (Inr (proj, pa), w1)
        \<and> syncFeatures N \<lparr>projectsDbId = pdb, featuresDbId = fdb\<rparr> features
              (m0\<lparr>projectPageId := Some proj\<rparr>)
              \<lparr>createdCount = 0, updatedCount = 0, unchangedCount = 0\<rparr> w1 = (Inl e, w2) \<longrightarrow>
      syncToNotion N env pn readme features now fs w = Covered (SyncFailed e, fs, w2))
   \<and> (\<forall>pdb fdb members m0 proj pa w1 g others e w2.
        truthy (NOTION_TOKEN env) \<and> NOTION_PROJECTS_DB_ID env = Some pdb \<and> pdb \<noteq> []
        \<and> NOTION_FEATURES_DB_ID env = Some fdb \<and> fdb \<noteq> []
        \<and> features = g # others
        \<and> list_all (\<lambda>f. take (length roadmapDir) (filePath f) = roadmapDir) features
        \<and> loadMapping fs = JObject members \<and> viewMapping members = Usable m0
        \<and> map_of (featurePageIds m0) (filePath g) = None
        \<and> syncProject N \<lparr>projectsDbId = pdb, featuresDbId = fdb\<rparr> pn readme (length features) m0 w
              = (Inr (proj, pa), w1)
        \<and> request (pages_create N fdb (featureProperties g (Some proj)) (featureChildren g))
              (PagesCreate fdb (featureProperties g (Some proj)) (featureChildren g)) w1
              = (Inl e, w2) \<longrightarrow>
      syncToNotion N env pn readme features now fs w = Covered (SyncFailed e, fs, w2))
   \<and> (\<forall>e fs' w'. syncToNotion N env pn readme features now fs w = Covered (SyncFailed e, fs', w')
        \<longrightarrow> fs' = fs)
   \<and> (\<forall>pid e w1. map_of (featurePageIds m) (filePath f) = Some pid \<and> pid \<noteq> []
        \<and> map_of (contentHashes m) (filePath f) = Some (hash f)
        \<and> request (pages_retrieve N pid) (PagesRetrieve pid) w = (Inl e, w1) \<longrightarrow>
      syncFeature N cfg f pp m w = updateOrCreate N cfg f pp (Some pid) w1)
   \<and> updateOrCreate N cfg f pp (Some []) w = updateOrCreate N cfg f pp None w"
proof (intro conjI allI impI)
  fix pid e w1
  assume "pid \<noteq> []
        \<and> request (pages_update N pid (SetProperties (featureProperties f pp)))
            (PagesUpdate pid (SetProperties (featureProperties f pp))) w = (Inl e, w1)"
  then show "updateOrCreate N cfg f pp (Some pid) w = updateOrCreate N cfg f pp None w1"
    by (simp add: updateOrCreate_def updateExisting_def Let_def)
next
  fix pid u w1 e w2
  assume "pid \<noteq> []
        \<and> request (pages_update N pid (SetProperties (featureProperties f pp)))
            (PagesUpdate pid (SetProperties (featureProperties f pp))) w = (Inr u, w1)
        \<and> request (blocks_children_list N pid) (BlocksChildrenList pid) w1 = (Inl e, w2)"
  then show "updateOrCreate N cfg f pp (Some pid) w = updateOrCreate N cfg f pp None w2"
    by (simp add: updateOrCreate_def updateExisting_def Let_def)
next
  fix pid u w1 blocks w2 e w3
  assume "pid \<noteq> []
        \<and> request (pages_update N pid (SetProperties (featureProperties f pp)))
            (PagesUpdate pid (SetProperties (featureProperties f pp))) w = (Inr u, w1)
        \<and> request (blocks_children_list N pid) (BlocksChildrenList pid) w1 = (Inr blocks, w2)
        \<and> request (blocks_children_append N pid (featureChildren f))
            (BlocksChildrenAppend pid (featureChildren f)) (deleteBlocks N blocks w2) = (Inl e, w3)"
  then show "updateOrCreate N cfg f pp (Some pid) w = updateOrCreate N cfg f pp None w3"
    by (simp add: updateOrCreate_def updateExisting_def Let_def children_nonempty)
next
  fix e w1
  assume "request (pages_create N (featuresDbId cfg) (featureProperties f pp) (featureChildren f))
          (PagesCreate (featuresDbId cfg) (featureProperties f pp) (featureChildren f)) w = (Inl e, w1)"
  then show "updateOrCreate N cfg f pp None w = (Inl e, w1)"
    by (simp add: updateOrCreate_def Let_def)
next
  fix newId w1
  assume "request (pages_create N (featuresDbId cfg) (featureProperties f pp) (featureChildren f))
          (PagesCreate (featuresDbId cfg) (featureProperties f pp) (featureChildren f)) w = (Inr newId, w1)"
  then show "updateOrCreate N cfg f pp None w = (Inr (newId, created), w1)"
    by (simp add: updateOrCreate_def Let_def)
next
  assume "map_of (featurePageIds m) (filePath f) = None"
  then show "syncFeature N cfg f pp m w = updateOrCreate N cfg f pp None w"
    by (simp add: syncFeature_def)
next
  fix pid
  assume "map_of (featurePageIds m) (filePath f) = Some pid
        \<and> (pid = [] \<or> map_of (contentHashes m) (filePath f) \<noteq> Some (hash f))"
  then show "syncFeature N cfg f pp m w = updateOrCreate N cfg f pp (Some pid) w"
    by (auto simp: syncFeature_def)
next
  fix pid act w1
  assume "syncFeature N cfg f (projectPageId m) m w = (Inr (pid, act), w1)"
  then show "syncFeatures N cfg (f # rest) m c w
        = syncFeatures N cfg rest
            (m\<lparr>featurePageIds := AList.update (filePath f) pid (featurePageIds m),
               contentHashes := AList.update (filePath f) (hash f) (contentHashes m)\<rparr>)
            (count act c) w1"
    by simp
next
  fix e w1
  assume "syncFeature N cfg f (projectPageId m) m w = (Inl e, w1)"
  then show "syncFeatures N cfg (f # rest) m c w = (Inl e, w1)"
    by simp
next
  fix pdb fdb members m0 proj pa w1 e w2
  assume "truthy (NOTION_TOKEN env) \<and> NOTION_PROJECTS_DB_ID env = Some pdb \<and> pdb \<noteq> []
        \<and> NOTION_FEATURES_DB_ID env = Some fdb \<and> fdb \<noteq> []
        \<and> list_all (\<lambda>f. take (length roadmapDir) (filePath f) = roadmapDir) features
        \<and> loadMapping fs = JObject members \<and> viewMapping members = Usable m0
        \<and> syncProject N \<lparr>projectsDbId = pdb, featuresDbId = fdb\<rparr> pn readme (length features) m0 w
              = (Inr (proj, pa), w1)
        \<and> syncFeatures N \<lparr>projectsDbId = pdb, featuresDbId = fdb\<rparr> features
              (m0\<lparr>projectPageId := Some proj\<rparr>)
              \<lparr>createdCount = 0, updatedCount = 0, unchangedCount = 0\<rparr> w1 = (Inl e, w2)"
  then show "syncToNotion N env pn readme features now fs w = Covered (SyncFailed e, fs, w2)"
    by (simp add: syncToNotion_def runLoaded_def reconcile_def)
next
  fix pdb fdb members m0 proj pa w1 g others e w2
  assume a: "truthy (NOTION_TOKEN env) \<and> NOTION_PROJECTS_DB_ID env = Some pdb \<and> pdb \<noteq> []
        \<and> NOTION_FEATURES_DB_ID env = Some fdb \<and> fdb \<noteq> []
        \<and> features = g # others
        \<and> list_all (\<lambda>f. take (length roadmapDir) (filePath f) = roadmapDir) features
        \<and> loadMapping fs = JObject members \<and> viewMapping members = Usable m0
        \<and> map_of (featurePageIds m0) (filePath g) = None
        \<and> syncProject N \<lparr>projectsDbId = pdb, featuresDbId = fdb\<rparr> pn readme (length features) m0 w
              = (Inr (proj, pa), w1)
        \<and> request (pages_create N fdb (featureProperties g (Some proj)) (featureChildren g))
              (PagesCreate fdb (featureProperties g (Some proj)) (featureChildren g)) w1
              = (Inl e, w2)"
  then have "syncFeature N \<lparr>projectsDbId = pdb, featuresDbId = fdb\<rparr> g (Some proj)
               (m0\<lparr>projectPageId := Some proj\<rparr>) w1 = (Inl e, w2)"
    by (simp add: syncFeature_def updateOrCreate_def Let_def)
  with a have loop: "syncFeatures N \<lparr>projectsDbId = pdb, featuresDbId = fdb\<rparr> features
              (m0\<lparr>projectPageId := Some proj\<rparr>)
              \<lparr>createdCount = 0, updatedCount = 0, unchangedCount = 0\<rparr> w1 = (Inl e, w2)"
    by simp
  from a have b: "truthy (NOTION_TOKEN env)" "NOTION_PROJECTS_DB_ID env = Some pdb" "pdb \<noteq> []"
      "NOTION_FEATURES_DB_ID env = Some fdb" "fdb \<noteq> []"
      "list_all (\<lambda>f. take (length roadmapDir) (filePath f) = roadmapDir) features"
      "loadMapping fs = JObject members" "viewMapping members = Usable m0"
      "syncProject N \<lparr>projectsDbId = pdb, featuresDbId = fdb\<rparr> pn readme (length features) m0 w
              = (Inr (proj, pa), w1)"
    by blast+
  from b loop show "syncToNotion N env pn readme features now fs w = Covered (SyncFailed e, fs, w2)"
    by (simp add: syncToNotion_def runLoaded_def reconcile_def)
next
  fix e fs' w'
  assume "syncToNotion N env pn readme features now fs w = Covered (SyncFailed e, fs', w')"
  then show "fs' = fs"
    by (auto simp: syncToNotion_def split: if_splits option.splits dest: runLoaded_failed)
next
  fix pid e w1
  assume "map_of (featurePageIds m) (filePath f) = Some pid \<and> pid \<noteq> []
        \<and> map_of (contentHashes m) (filePath f) = Some (hash f)
        \<and> request (pages_retrieve N pid) (PagesRetrieve pid) w = (Inl e, w1)"
  then show "syncFeature N cfg f pp m w = updateOrCreate N cfg f pp (Some pid) w1"
    by (simp add: syncFeature_def)
next
  show "updateOrCreate N cfg f pp (Some []) w = updateOrCreate N cfg f pp None w"
    by (simp add: updateOrCreate_def)
qed


theorem C2_update_failure_recovered_create_failure_aborts_witness:
  "updateOrCreate (answering (replay [Fails, ReturnsId ''page-A2''])) demoConfig
      (demoFeature ''roadmap/planned/a.md'' ''A'' ''h-a'') (Some ''proj'') (Some ''page-A1'') (0, [])
    = (Inr (''page-A2'', created),
       (2, [PagesUpdate ''page-A1'' (SetProperties (demoProps ''A'' ''Planned'')),
            demoCreate ''A'' ''Planned'' ''roadmap/planned/a.md'']))
   \<and> updateOrCreate (answering (replay [Succeeds, Fails, ReturnsId ''page-A2''])) demoConfig
      (demoFeature ''roadmap/planned/a.md'' ''A'' ''h-a'') (Some ''proj'') (Some ''page-A1'') (0, [])
    = (Inr (''page-A2'', created),
       (3, [PagesUpdate ''page-A1'' (SetProperties (demoProps ''A'' ''Planned'')),
            BlocksChildrenList ''page-A1'',
            demoCreate ''A'' ''Planned'' ''roadmap/planned/a.md'']))
   \<and> updateOrCreate
      (answering (replay [Succeeds, ReturnsIds [''old-block''], Succeeds, Fails, ReturnsId ''page-A2'']))
      demoConfig
      (demoFeature ''roadmap/planned/a.md'' ''A'' ''h-a'') (Some ''proj'') (Some ''page-A1'') (0, [])
    = (Inr (''page-A2'', created),
       (5, [PagesUpdate ''page-A1'' (SetProperties (demoProps ''A'' ''Planned'')),
            BlocksChildrenList ''page-A1'',
            BlocksDelete ''old-block'',
            BlocksChildrenAppend ''page-A1'' [Divider, SourceRef ''roadmap/planned/a.md''],
            demoCreate ''A'' ''Planned'' ''roadmap/planned/a.md'']))
   \<and> syncFeature (answering (replay [Fails])) demoConfig
      (demoFeature ''roadmap/planned/a.md'' ''A'' ''h-a'') (Some ''proj'') (demoMapping [] []) (0, [])
    = (Inl (Error ''rejected''), (1, [demoCreate ''A'' ''Planned'' ''roadmap/planned/a.md'']))
   \<and> syncFeature (answering (replay [Fails, Fails, ReturnsId ''page-A2''])) demoConfig
      (demoFeature ''roadmap/planned/a.md'' ''A'' ''h-a'') (Some ''proj'')
      (demoMapping [(''roadmap/planned/a.md'', ''page-A1'')] [(''roadmap/planned/a.md'', ''h-a'')]) (0, [])
    = (Inr (''page-A2'', created),
       (3, [PagesRetrieve ''page-A1'',
            PagesUpdate ''page-A1'' (SetProperties (demoProps ''A'' ''Planned'')),
            demoCreate ''A'' ''Planned'' ''roadmap/planned/a.md'']))
   \<and> syncFeatures (answering (replay [Fails, ReturnsId ''page-A2'', ReturnsId ''page-B1''])) demoConfig
      [demoFeature ''roadmap/planned/a.md'' ''A'' ''h-a'', demoFeature ''roadmap/planned/b.md'' ''B'' ''h-b'']
      (demoMapping [(''roadmap/planned/a.md'', ''page-A1'')] [(''roadmap/planned/a.md'', ''h-old'')])
      \<lparr>createdCount = 0, updatedCount = 0, unchangedCount = 0\<rparr> (0, [])
    = (Inr (demoMapping [(''roadmap/planned/a.md'', ''page-A2''), (''roadmap/planned/b.md'', ''page-B1'')]
                        [(''roadmap/planned/a.md'', ''h-a''), (''roadmap/planned/b.md'', ''h-b'')],
            \<lparr>createdCount = 2, updatedCount = 0, unchangedCount = 0\<rparr>),
       (3, [PagesUpdate ''page-A1'' (SetProperties (demoProps ''A'' ''Planned'')),
            demoCreate ''A'' ''Planned'' ''roadmap/planned/a.md'',
            demoCreate ''B'' ''Planned'' ''roadmap/planned/b.md'']))
   \<and> syncFeatures (answering (replay [Fails])) demoConfig
      [demoFeature ''roadmap/planned/a.md'' ''A'' ''h-a'', demoFeature ''roadmap/planned/b.md'' ''B'' ''h-b'']
      (demoMapping [] []) \<lparr>createdCount = 0, updatedCount = 0, unchangedCount = 0\<rparr> (0, [])
    = (Inl (Error ''rejected''), (1, [demoCreate ''A'' ''Planned'' ''roadmap/planned/a.md'']))
   \<and> syncToNotion
      (answering (replay [ReturnsIds [''proj''], Succeeds, ReturnsId ''page-A1'', Fails]))
      demoEnv ''demo'' None
      [demoFeature ''roadmap/planned/a.md'' ''A'' ''h-a'', demoFeature ''roadmap/planned/b.md'' ''B'' ''h-b'',
       demoFeature ''roadmap/planned/c.md'' ''C'' ''h-c'']
      ''t1'' Map.empty (0, [])
    = Covered (SyncFailed (Error ''rejected''), Map.empty,
       (4, [DatabasesQuery ''projects-db'' (NameEquals ''demo''),
            PagesUpdate ''proj'' (SetProperties (ProjectProperties ''demo'')),
            demoCreate ''A'' ''Planned'' ''roadmap/planned/a.md'',
            demoCreate ''B'' ''Planned'' ''roadmap/planned/b.md'']))
   \<and> syncToNotion
      (answering (replay [ReturnsIds [''proj''], Succeeds, Fails]))
      demoEnv ''demo'' None
      [demoFeature ''roadmap/planned/a.md'' ''A'' ''h-a'', demoFeature ''roadmap/planned/b.md'' ''B'' ''h-b'',
       demoFeature ''roadmap/planned/c.md'' ''C'' ''h-c'']
      ''t1'' Map.empty (0, [])
    = Covered (SyncFailed (Error ''rejected''), Map.empty,
       (3, [DatabasesQuery ''projects-db'' (NameEquals ''demo''),
            PagesUpdate ''proj'' (SetProperties (ProjectProperties ''demo'')),
            demoCreate ''A'' ''Planned'' ''roadmap/planned/a.md'']))"
proof -
  let ?A = "demoFeature ''roadmap/planned/a.md'' ''A'' ''h-a''"
  let ?B = "demoFeature ''roadmap/planned/b.md'' ''B'' ''h-b''"
  let ?C = "demoFeature ''roadmap/planned/c.md'' ''C'' ''h-c''"
  let ?c0 = "\<lparr>createdCount = 0, updatedCount = 0, unchangedCount = 0\<rparr>"
  let ?pp = "Some ''proj''"
  let ?old = "demoMapping [(''roadmap/planned/a.md'', ''page-A1'')] [(''roadmap/planned/a.md'', ''h-old'')]"
  let ?fresh = "\<lparr>projectPageId = None, lastSync = None, featurePageIds = [], contentHashes = []\<rparr>"
  let ?cfg = "\<lparr>projectsDbId = ''projects-db'', featuresDbId = ''features-db''\<rparr>"
  let ?N1 = "answering (replay [Fails, ReturnsId ''page-A2''])"
  let ?N2 = "answering (replay [Succeeds, Fails, ReturnsId ''page-A2''])"
  let ?N3 = "answering (replay [Succeeds, ReturnsIds [''old-block''], Succeeds, Fails, ReturnsId ''page-A2''])"
  let ?N4 = "answering (replay [Fails])"
  let ?N5 = "answering (replay [Fails, ReturnsId ''page-A2'', ReturnsId ''page-B1''])"
  let ?N6 = "answering (replay [ReturnsIds [''proj''], Succeeds, ReturnsId ''page-A1'', Fails])"
  let ?N7 = "answering (replay [ReturnsIds [''proj''], Succeeds, Fails])"
  let ?patch = "PagesUpdate ''page-A1'' (SetProperties (featureProperties ?A ?pp))"
  note c2 = C2_update_failure_recovered_create_failure_aborts
  have h1: "''page-A1'' \<noteq> []
        \<and> request (pages_update ?N1 ''page-A1'' (SetProperties (featureProperties ?A ?pp)))
            ?patch (0, []) = (Inl (Error ''rejected''), (1, [?patch]))"
    by (simp add: request_def demo_defs)
  have one: "updateOrCreate ?N1 demoConfig ?A ?pp (Some ''page-A1'') (0, [])
    = (Inr (''page-A2'', created),
       (2, [PagesUpdate ''page-A1'' (SetProperties (demoProps ''A'' ''Planned'')),
            demoCreate ''A'' ''Planned'' ''roadmap/planned/a.md'']))"
    using c2 [where N = ?N1 and f = ?A and pp = ?pp and cfg = demoConfig and w = "(0, [])",
             THEN conjunct1, rule_format, OF h1]
    by (simp add: run_defs demo_defs)
  have h2: "''page-A1'' \<noteq> []
        \<and> request (pages_update ?N2 ''page-A1'' (SetProperties (featureProperties ?A ?pp)))
            ?patch (0, []) = (Inr (), (1, [?patch]))
        \<and> request (blocks_children_list ?N2 ''page-A1'') (BlocksChildrenList ''page-A1'') (1, [?patch])
            = (Inl (Error ''rejected''), (2, [?patch, BlocksChildrenList ''page-A1'']))"
    by (simp add: request_def demo_defs)
  have two: "updateOrCreate ?N2 demoConfig ?A ?pp (Some ''page-A1'') (0, [])
    = (Inr (''page-A2'', created),
       (3, [PagesUpdate ''page-A1'' (SetProperties (demoProps ''A'' ''Planned'')),
            BlocksChildrenList ''page-A1'',
            demoCreate ''A'' ''Planned'' ''roadmap/planned/a.md'']))"
    using c2 [where N = ?N2 and f = ?A and pp = ?pp and cfg = demoConfig and w = "(0, [])",
             THEN conjunct2, THEN conjunct1, rule_format, OF h2]
    by (simp add: run_defs demo_defs)
  have h3: "''page-A1'' \<noteq> []
        \<and> request (pages_update ?N3 ''page-A1'' (SetProperties (featureProperties ?A ?pp)))
            ?patch (0, []) = (Inr (), (1, [?patch]))
        \<and> request (blocks_children_list ?N3 ''page-A1'') (BlocksChildrenList ''page-A1'') (1, [?patch])
            = (Inr [''old-block''], (2, [?patch, BlocksChildrenList ''page-A1'']))
        \<and> request (blocks_children_append ?N3 ''page-A1'' (featureChildren ?A))
            (BlocksChildrenAppend ''page-A1'' (featureChildren ?A))
            (deleteBlocks ?N3 [''old-block''] (2, [?patch, BlocksChildrenList ''page-A1'']))
            = (Inl (Error ''rejected''),
               (4, [?patch, BlocksChildrenList ''page-A1'', BlocksDelete ''old-block'',
                    BlocksChildrenAppend ''page-A1'' (featureChildren ?A)]))"
    by (simp add: request_def demo_defs)
  have three: "updateOrCreate ?N3 demoConfig ?A ?pp (Some ''page-A1'') (0, [])
    = (Inr (''page-A2'', created),
       (5, [PagesUpdate ''page-A1'' (SetProperties (demoProps ''A'' ''Planned'')),
            BlocksChildrenList ''page-A1'',
            BlocksDelete ''old-block'',
            BlocksChildrenAppend ''page-A1'' [Divider, SourceRef ''roadmap/planned/a.md''],
            demoCreate ''A'' ''Planned'' ''roadmap/planned/a.md'']))"
    using c2 [where N = ?N3 and f = ?A and pp = ?pp and cfg = demoConfig and w = "(0, [])",
             THEN conjunct2, THEN conjunct2, THEN conjunct1, rule_format, OF h3]
    by (simp add: run_defs demo_defs)
  have h4: "request (pages_create ?N4 (featuresDbId demoConfig) (featureProperties ?A ?pp) (featureChildren ?A))
          (PagesCreate (featuresDbId demoConfig) (featureProperties ?A ?pp) (featureChildren ?A)) (0, [])
        = (Inl (Error ''rejected''),
           (1, [PagesCreate (featuresDbId demoConfig) (featureProperties ?A ?pp) (featureChildren ?A)]))"
    by (simp add: request_def demo_defs)
  have h6: "map_of (featurePageIds (demoMapping [] [])) (filePath ?A) = None"
    by (simp add: demo_defs)
  have four: "syncFeature ?N4 demoConfig ?A ?pp (demoMapping [] []) (0, [])
    = (Inl (Error ''rejected''), (1, [demoCreate ''A'' ''Planned'' ''roadmap/planned/a.md'']))"
    using c2 [where N = ?N4 and f = ?A and pp = ?pp and cfg = demoConfig and w = "(0, [])",
             THEN conjunct2, THEN conjunct2, THEN conjunct2, THEN conjunct1, rule_format, OF h4]
          c2 [where N = ?N4 and f = ?A and pp = ?pp and cfg = demoConfig and w = "(0, [])"
                 and m = "demoMapping [] []",
             THEN conjunct2, THEN conjunct2, THEN conjunct2, THEN conjunct2, THEN conjunct2,
             THEN conjunct1, rule_format, OF h6]
    by (simp add: run_defs demo_defs)
  let ?N8 = "answering (replay [Fails, Fails, ReturnsId ''page-A2''])"
  let ?same = "demoMapping [(''roadmap/planned/a.md'', ''page-A1'')] [(''roadmap/planned/a.md'', ''h-a'')]"
  have h13: "map_of (featurePageIds ?same) (filePath ?A) = Some ''page-A1'' \<and> ''page-A1'' \<noteq> []
        \<and> map_of (contentHashes ?same) (filePath ?A) = Some (hash ?A)
        \<and> request (pages_retrieve ?N8 ''page-A1'') (PagesRetrieve ''page-A1'') (0, [])
            = (Inl (Error ''rejected''), (1, [PagesRetrieve ''page-A1'']))"
    by (simp add: request_def demo_defs)
  have probe: "syncFeature ?N8 demoConfig ?A ?pp ?same (0, [])
    = (Inr (''page-A2'', created),
       (3, [PagesRetrieve ''page-A1'',
            PagesUpdate ''page-A1'' (SetProperties (demoProps ''A'' ''Planned'')),
            demoCreate ''A'' ''Planned'' ''roadmap/planned/a.md'']))"
    using c2 [where N = ?N8 and f = ?A and pp = ?pp and cfg = demoConfig and w = "(0, [])"
                 and m = ?same,
             THEN conjunct2, THEN conjunct2, THEN conjunct2, THEN conjunct2, THEN conjunct2,
             THEN conjunct2, THEN conjunct2, THEN conjunct2, THEN conjunct2, THEN conjunct2,
             THEN conjunct2, THEN conjunct2, THEN conjunct1, rule_format, OF h13]
    by (simp add: updateOrCreate_def updateExisting_def request_def featureProperties_def
          featureChildren_def statusFromPath_cases demo_defs Let_def)
  have h8: "syncFeature ?N5 demoConfig ?A (projectPageId ?old) ?old (0, [])
      = (Inr (''page-A2'', created),
         (2, [PagesUpdate ''page-A1'' (SetProperties (demoProps ''A'' ''Planned'')),
              demoCreate ''A'' ''Planned'' ''roadmap/planned/a.md'']))"
    by (simp add: run_defs demo_defs Let_def)
  have five: "syncFeatures ?N5 demoConfig [?A, ?B] ?old ?c0 (0, [])
    = (Inr (demoMapping [(''roadmap/planned/a.md'', ''page-A2''), (''roadmap/planned/b.md'', ''page-B1'')]
                        [(''roadmap/planned/a.md'', ''h-a''), (''roadmap/planned/b.md'', ''h-b'')],
            \<lparr>createdCount = 2, updatedCount = 0, unchangedCount = 0\<rparr>),
       (3, [PagesUpdate ''page-A1'' (SetProperties (demoProps ''A'' ''Planned'')),
            demoCreate ''A'' ''Planned'' ''roadmap/planned/a.md'',
            demoCreate ''B'' ''Planned'' ''roadmap/planned/b.md'']))"
    using c2 [where N = ?N5 and f = ?A and cfg = demoConfig and w = "(0, [])" and m = ?old
                 and rest = "[?B]" and c = ?c0,
             THEN conjunct2, THEN conjunct2, THEN conjunct2, THEN conjunct2, THEN conjunct2,
             THEN conjunct2, THEN conjunct2, THEN conjunct1, rule_format, OF h8]
    by (simp add: run_defs demo_defs)
  have h9: "syncFeature ?N4 demoConfig ?A (projectPageId (demoMapping [] [])) (demoMapping [] []) (0, [])
      = (Inl (Error ''rejected''), (1, [demoCreate ''A'' ''Planned'' ''roadmap/planned/a.md'']))"
    by (simp add: run_defs demo_defs)
  have six: "syncFeatures ?N4 demoConfig [?A, ?B] (demoMapping [] []) ?c0 (0, [])
    = (Inl (Error ''rejected''), (1, [demoCreate ''A'' ''Planned'' ''roadmap/planned/a.md'']))"
    by (rule c2 [where N = ?N4 and f = ?A and cfg = demoConfig and w = "(0, [])"
                 and m = "demoMapping [] []" and rest = "[?B]" and c = ?c0,
             THEN conjunct2, THEN conjunct2, THEN conjunct2, THEN conjunct2, THEN conjunct2,
             THEN conjunct2, THEN conjunct2, THEN conjunct2, THEN conjunct1, rule_format, OF h9])
  have v: "viewMapping (membersOf freshState) = Usable ?fresh"
    by (simp add: freshState_def view_defs)
  have l: "loadMapping Map.empty = JObject (membersOf freshState)"
    by (simp add: load_empty freshState_def)
  have sc: "list_all (\<lambda>f. take (length roadmapDir) (filePath f) = roadmapDir) [?A, ?B, ?C]"
    by (simp add: roadmapDir_def demoFeature_def)
  have h10: "truthy (NOTION_TOKEN demoEnv) \<and> NOTION_PROJECTS_DB_ID demoEnv = Some ''projects-db''
        \<and> ''projects-db'' \<noteq> []
        \<and> NOTION_FEATURES_DB_ID demoEnv = Some ''features-db'' \<and> ''features-db'' \<noteq> []
        \<and> list_all (\<lambda>f. take (length roadmapDir) (filePath f) = roadmapDir) [?A, ?B, ?C]
        \<and> loadMapping Map.empty = JObject (membersOf freshState)
        \<and> viewMapping (membersOf freshState) = Usable ?fresh
        \<and> syncProject ?N6 ?cfg ''demo'' None (length [?A, ?B, ?C]) ?fresh (0, [])
              = (Inr (''proj'', updated),
                 (2, [DatabasesQuery ''projects-db'' (NameEquals ''demo''),
                      PagesUpdate ''proj'' (SetProperties (ProjectProperties ''demo''))]))
        \<and> syncFeatures ?N6 ?cfg [?A, ?B, ?C] (?fresh\<lparr>projectPageId := Some ''proj''\<rparr>) ?c0
              (2, [DatabasesQuery ''projects-db'' (NameEquals ''demo''),
                   PagesUpdate ''proj'' (SetProperties (ProjectProperties ''demo''))])
              = (Inl (Error ''rejected''),
                 (4, [DatabasesQuery ''projects-db'' (NameEquals ''demo''),
                      PagesUpdate ''proj'' (SetProperties (ProjectProperties ''demo'')),
                      demoCreate ''A'' ''Planned'' ''roadmap/planned/a.md'',
                      demoCreate ''B'' ''Planned'' ''roadmap/planned/b.md'']))"
    using v l sc by (simp add: run_defs demo_defs)
  have seven: "syncToNotion ?N6 demoEnv ''demo'' None [?A, ?B, ?C] ''t1'' Map.empty (0, [])
    = Covered (SyncFailed (Error ''rejected''), Map.empty,
       (4, [DatabasesQuery ''projects-db'' (NameEquals ''demo''),
            PagesUpdate ''proj'' (SetProperties (ProjectProperties ''demo'')),
            demoCreate ''A'' ''Planned'' ''roadmap/planned/a.md'',
            demoCreate ''B'' ''Planned'' ''roadmap/planned/b.md'']))"
    by (rule c2 [where N = ?N6 and env = demoEnv and fs = Map.empty and w = "(0, [])",
             THEN conjunct2, THEN conjunct2, THEN conjunct2, THEN conjunct2, THEN conjunct2,
             THEN conjunct2, THEN conjunct2, THEN conjunct2, THEN conjunct2, THEN conjunct1,
             rule_format, OF h10])
  have h11: "truthy (NOTION_TOKEN demoEnv) \<and> NOTION_PROJECTS_DB_ID demoEnv = Some ''projects-db''
        \<and> ''projects-db'' \<noteq> []
        \<and> NOTION_FEATURES_DB_ID demoEnv = Some ''features-db'' \<and> ''features-db'' \<noteq> []
        \<and> [?A, ?B, ?C] = ?A # [?B, ?C]
        \<and> list_all (\<lambda>f. take (length roadmapDir) (filePath f) = roadmapDir) [?A, ?B, ?C]
        \<and> loadMapping Map.empty = JObject (membersOf freshState)
        \<and> viewMapping (membersOf freshState) = Usable ?fresh
        \<and> map_of (featurePageIds ?fresh) (filePath ?A) = None
        \<and> syncProject ?N7 ?cfg ''demo'' None (length [?A, ?B, ?C]) ?fresh (0, [])
              = (Inr (''proj'', updated),
                 (2, [DatabasesQuery ''projects-db'' (NameEquals ''demo''),
                      PagesUpdate ''proj'' (SetProperties (ProjectProperties ''demo''))]))
        \<and> request (pages_create ?N7 ''features-db'' (featureProperties ?A (Some ''proj''))
                     (featureChildren ?A))
              (PagesCreate ''features-db'' (featureProperties ?A (Some ''proj'')) (featureChildren ?A))
              (2, [DatabasesQuery ''projects-db'' (NameEquals ''demo''),
                   PagesUpdate ''proj'' (SetProperties (ProjectProperties ''demo''))])
              = (Inl (Error ''rejected''),
                 (3, [DatabasesQuery ''projects-db'' (NameEquals ''demo''),
                      PagesUpdate ''proj'' (SetProperties (ProjectProperties ''demo'')),
                      PagesCreate ''features-db'' (featureProperties ?A (Some ''proj''))
                        (featureChildren ?A)]))"
    using v l sc
    by (simp add: syncProject_def createProject_def findProjectPage_def request_def demo_defs)
  have eight: "syncToNotion ?N7 demoEnv ''demo'' None [?A, ?B, ?C] ''t1'' Map.empty (0, [])
    = Covered (SyncFailed (Error ''rejected''), Map.empty,
       (3, [DatabasesQuery ''projects-db'' (NameEquals ''demo''),
            PagesUpdate ''proj'' (SetProperties (ProjectProperties ''demo'')),
            demoCreate ''A'' ''Planned'' ''roadmap/planned/a.md'']))"
    using c2 [where N = ?N7 and env = demoEnv and fs = Map.empty and w = "(0, [])",
             THEN conjunct2, THEN conjunct2, THEN conjunct2, THEN conjunct2, THEN conjunct2,
             THEN conjunct2, THEN conjunct2, THEN conjunct2, THEN conjunct2, THEN conjunct2,
             THEN conjunct1, rule_format, OF h11]
    by (simp add: featureProperties_def featureChildren_def statusFromPath_cases demo_defs)
  from one two three four probe five six seven eight show ?thesis by blast
qed

text \<open>
  C2 as the specification words it fails. Three features, no mapping file; the project
  and the first feature are created, the create of the second is rejected. The run ends
  with \<open>Sync failed\<close>, no request is sent for the third feature, and there is still no
  mapping file, so the ids of the two pages just created are lost.
\<close>

theorem C2_failed_create_counterexample:
  "syncToNotion
      (answering (replay [ReturnsIds [], ReturnsId ''proj'', ReturnsId ''page-A1'', Fails]))
      demoEnv ''demo'' None
      [demoFeature ''roadmap/planned/a.md'' ''A'' ''h-a'', demoFeature ''roadmap/planned/b.md'' ''B'' ''h-b'',
       demoFeature ''roadmap/planned/c.md'' ''C'' ''h-c'']
      ''t1'' Map.empty (0, [])
    = Covered (SyncFailed (Error ''rejected''), Map.empty,
       (4, demoProjectCalls @ [demoCreate ''A'' ''Planned'' ''roadmap/planned/a.md'',
                               demoCreate ''B'' ''Planned'' ''roadmap/planned/b.md'']))"
proof -
  have v: "viewMapping (membersOf freshState)
             = Usable \<lparr>projectPageId = None, lastSync = None, featurePageIds = [], contentHashes = []\<rparr>"
    by (simp add: freshState_def view_defs)
  have l: "loadMapping Map.empty = JObject (membersOf freshState)"
    by (simp add: load_empty freshState_def)
  show ?thesis
    by (simp add: l v syncToNotion_def runLoaded_def roadmapDir_def demoEnv_def demoFeature_def)
       (simp add: run_defs demo_defs)
qed







subsection \<open>Lines of a Subtasks section\<close>




lemma chr_rejects: "s = [] \<or> \<not> p (hd s) \<Longrightarrow> mt (Chr p # rs) s st cp = None"
  by (cases s) auto







































end
